theory Spec2Isabelle
  imports Main "HOL-Library.Sublist"
begin

section \<open>Python values used by setup.py\<close>

text \<open>
  Python strings are modelled as \<open>string\<close>: lists of the code points U+0000 to U+00FF.
  Exceptions are values of the type \<open>error\<close>; a function that may raise returns
  \<open>error + 'a\<close> with \<open>Inl\<close> for the raised exception.
\<close>

datatype error =
    DistutilsExecError string
  | DistutilsFileError string
  | OSError string
  | ValueError string

definition squote :: char where "squote = CHR 0x27"
definition dquote :: char where "dquote = CHR 0x22"
definition backslash :: char where "backslash = CHR 0x5C"

text \<open>\<open>sep.join(xs)\<close> on a list of strings.\<close>

fun py_join :: "string \<Rightarrow> string list \<Rightarrow> string" where
  "py_join sep [] = []"
| "py_join sep [x] = x"
| "py_join sep (x # y # ys) = x @ sep @ py_join sep (y # ys)"

text \<open>\<open>str.upper\<close> on the ASCII letters; its only arguments in setup.py are the profile
  names \<open>'Debug'\<close> and \<open>'Release'\<close>.\<close>

definition upper_char :: "char \<Rightarrow> char" where
  "upper_char c =
     (let n = (of_char c :: nat)
      in if 97 \<le> n \<and> n \<le> 122 then char_of (n - 32) else c)"

definition py_upper :: "string \<Rightarrow> string" where
  "py_upper s = map upper_char s"

text \<open>\<open>str(n)\<close> for an integer: the decimal rendering, with a minus sign when negative.\<close>

definition digit_char :: "nat \<Rightarrow> char" where
  "digit_char d = char_of (48 + d)"

fun nat_digits :: "nat \<Rightarrow> string" where
  "nat_digits n = (if n < 10 then [digit_char n] else nat_digits (n div 10) @ [digit_char (n mod 10)])"

declare nat_digits.simps [simp del]

definition py_str_int :: "int \<Rightarrow> string" where
  "py_str_int i = (if i < 0 then CHR ''-'' # nat_digits (nat (- i)) else nat_digits (nat i))"

text \<open>
  \<open>repr\<close> of a string (what \<open>%r\<close> prints), as CPython's \<open>unicode_repr\<close> computes it on
  code points below 256: the delimiter is a double quote exactly when the string has a
  single quote and no double quote; the delimiter and the backslash are escaped with a
  backslash, tab, newline and carriage return by their letters, the other non-printable
  code points (below 0x20, 0x7f to 0xa0, 0xad) as \<open>\xhh\<close>.
\<close>

definition hex_char :: "nat \<Rightarrow> char" where
  "hex_char d = (if d < 10 then char_of (48 + d) else char_of (87 + d))"

definition py_isprintable :: "char \<Rightarrow> bool" where
  "py_isprintable c =
     (let n = (of_char c :: nat)
      in (32 \<le> n \<and> n < 127) \<or> (161 \<le> n \<and> n \<noteq> 173))"

definition repr_char :: "char \<Rightarrow> char \<Rightarrow> string" where
  "repr_char quote ch =
     (let n = (of_char ch :: nat) in
      if ch = quote \<or> ch = backslash then [backslash, ch]
      else if ch = CHR 0x09 then [backslash, CHR ''t'']
      else if ch = CHR 0x0A then [backslash, CHR ''n'']
      else if ch = CHR 0x0D then [backslash, CHR ''r'']
      else if n < 32 \<or> n = 127 then [backslash, CHR ''x'', hex_char (n div 16), hex_char (n mod 16)]
      else if n < 127 then [ch]
      else if \<not> py_isprintable ch then [backslash, CHR ''x'', hex_char (n div 16), hex_char (n mod 16)]
      else [ch])"

definition py_repr_str :: "string \<Rightarrow> string" where
  "py_repr_str s =
     (let quote = (if squote \<in> set s \<and> dquote \<notin> set s then dquote else squote)
      in [quote] @ concat (map (repr_char quote) s) @ [quote])"

text \<open>\<open>repr\<close> of a list of strings: the items' \<open>repr\<close>s, separated by a comma and a space,
  in square brackets.\<close>

definition py_repr_list :: "string list \<Rightarrow> string" where
  "py_repr_list xs = ''['' @ py_join '', '' (map py_repr_str xs) @ '']''"

section \<open>posixpath\<close>

text \<open>The functions of \<open>os.path\<close> on a POSIX host (the module \<open>posixpath\<close>), on strings.\<close>

definition sep :: char where "sep = CHR ''/''"

definition posix_isabs :: "string \<Rightarrow> bool" where
  "posix_isabs s = (case s of [] \<Rightarrow> False | c # cs \<Rightarrow> c = sep)"

text \<open>\<open>join(a, b)\<close>: an absolute \<open>b\<close> replaces \<open>a\<close>; a separator is inserted unless \<open>a\<close> is
  empty or ends with one.\<close>

definition posix_join :: "string \<Rightarrow> string \<Rightarrow> string" where
  "posix_join a b =
     (if posix_isabs b then b
      else if a = [] \<or> last a = sep then a @ b
      else a @ [sep] @ b)"

text \<open>\<open>basename(p)\<close> is \<open>p[i:]\<close> and the head of \<open>dirname(p)\<close> is \<open>p[:i]\<close>, for \<open>i\<close> one past
  the last separator; \<open>dirname\<close> strips the trailing separators of a head that is not made
  of separators only.\<close>

definition posix_basename :: "string \<Rightarrow> string" where
  "posix_basename p = rev (takeWhile (\<lambda>c. c \<noteq> sep) (rev p))"

definition rstrip_sep :: "string \<Rightarrow> string" where
  "rstrip_sep s = rev (dropWhile (\<lambda>c. c = sep) (rev s))"

definition posix_dirname :: "string \<Rightarrow> string" where
  "posix_dirname p =
     (let head = rev (dropWhile (\<lambda>c. c \<noteq> sep) (rev p))
      in if head \<noteq> [] \<and> head \<noteq> replicate (length head) sep then rstrip_sep head else head)"

text \<open>\<open>s.split('/')\<close>.\<close>

fun split_sep :: "string \<Rightarrow> string list" where
  "split_sep [] = [[]]"
| "split_sep (c # cs) =
     (if c = sep then [] # split_sep cs
      else (case split_sep cs of [] \<Rightarrow> [[c]] | w # ws \<Rightarrow> (c # w) # ws))"

text \<open>The loop of \<open>normpath\<close> over the components: empty and \<open>.\<close> components are dropped,
  \<open>..\<close> removes the component before it where there is one to remove.\<close>

fun norm_comps :: "bool \<Rightarrow> string list \<Rightarrow> string list \<Rightarrow> string list" where
  "norm_comps initial new_comps [] = new_comps"
| "norm_comps initial new_comps (cmp # comps) =
     (if cmp = [] \<or> cmp = ''.'' then norm_comps initial new_comps comps
      else if cmp \<noteq> ''..'' \<or> (\<not> initial \<and> new_comps = [])
                \<or> (new_comps \<noteq> [] \<and> last new_comps = ''..'')
           then norm_comps initial (new_comps @ [cmp]) comps
      else if new_comps \<noteq> [] then norm_comps initial (butlast new_comps) comps
      else norm_comps initial new_comps comps)"

definition posix_normpath :: "string \<Rightarrow> string" where
  "posix_normpath path =
     (if path = [] then ''.''
      else
        (let initial_slashes =
               (if posix_isabs path
                then (if take 2 path = ''//'' \<and> take 3 path \<noteq> ''///'' then 2 else 1)
                else (0::nat));
             comps = norm_comps (initial_slashes \<noteq> 0) [] (split_sep path);
             p = replicate initial_slashes sep @ py_join ''/'' comps
         in if p = [] then ''.'' else p))"

text \<open>\<open>abspath(path)\<close>, with the current directory \<open>cwd\<close> of the process.\<close>

definition posix_abspath :: "string \<Rightarrow> string \<Rightarrow> string" where
  "posix_abspath cwd path =
     posix_normpath (if \<not> posix_isabs path then posix_join cwd path else path)"

section \<open>shlex.split\<close>

text \<open>
  \<open>shlex.split(s)\<close> runs the lexer of the module \<open>shlex\<close> in POSIX mode with
  \<open>whitespace_split\<close> set and no comment characters. The lexer reads one character at a
  time; its state is \<open>' '\<close> (between tokens), \<open>'a'\<close> (in a word), a quote character (in a
  quoted part) or the escape character (after a backslash), and \<open>escapedstate\<close> is the
  state to return to after the escaped character.
\<close>

datatype lex_state = In_space | In_word | In_quote char | In_escape

definition whitespace :: "char set" where
  "whitespace = {CHR '' '', CHR 0x09, CHR 0x0D, CHR 0x0A}"

definition quotes :: "char set" where
  "quotes = {squote, dquote}"

definition escapedquotes :: "char set" where
  "escapedquotes = {dquote}"

text \<open>
  \<open>read_tokens state escapedstate token quoted input\<close> is the loop of \<open>read_token\<close>,
  continued over the calls that \<open>list(lex)\<close> makes: where \<open>read_token\<close> breaks with a
  token, the token is put in front of the result of the next call, which starts with an
  empty token, \<open>quoted = False\<close> and \<open>escapedstate = ' '\<close> in the state the break left. At
  the end of the input a token is returned unless it is empty and unquoted, and the end
  inside quotes or after a backslash raises \<open>ValueError\<close>. The branches for comment and
  punctuation characters are left out: both sets are empty here.
\<close>

fun read_tokens :: "lex_state \<Rightarrow> lex_state \<Rightarrow> string \<Rightarrow> bool \<Rightarrow> string \<Rightarrow> error + string list" where
  "read_tokens In_space es token quoted [] =
     (if \<not> quoted \<and> token = [] then Inr [] else Inr [token])"
| "read_tokens In_word es token quoted [] =
     (if \<not> quoted \<and> token = [] then Inr [] else Inr [token])"
| "read_tokens (In_quote q) es token quoted [] = Inl (ValueError ''No closing quotation'')"
| "read_tokens In_escape es token quoted [] = Inl (ValueError ''No escaped character'')"
| "read_tokens In_space es token quoted (nextchar # rest) =
     (if nextchar \<in> whitespace then
        (if token \<noteq> [] \<or> quoted
         then (case read_tokens In_space In_space [] False rest of
                 Inl e \<Rightarrow> Inl e | Inr ts \<Rightarrow> Inr (token # ts))
         else read_tokens In_space es token quoted rest)
      else if nextchar = backslash then read_tokens In_escape In_word token quoted rest
      else if nextchar \<in> quotes then read_tokens (In_quote nextchar) es token quoted rest
      else read_tokens In_word es [nextchar] quoted rest)"
| "read_tokens (In_quote q) es token quoted (nextchar # rest) =
     (if nextchar = q then read_tokens In_word es token True rest
      else if nextchar = backslash \<and> q \<in> escapedquotes then read_tokens In_escape (In_quote q) token True rest
      else read_tokens (In_quote q) es (token @ [nextchar]) True rest)"
| "read_tokens In_escape es token quoted (nextchar # rest) =
     (let token1 =
        (case es of
           In_quote q \<Rightarrow> if nextchar \<noteq> backslash \<and> nextchar \<noteq> q then token @ [backslash] else token
         | _ \<Rightarrow> token)
      in read_tokens es es (token1 @ [nextchar]) quoted rest)"
| "read_tokens In_word es token quoted (nextchar # rest) =
     (if nextchar \<in> whitespace then
        (if token \<noteq> [] \<or> quoted
         then (case read_tokens In_space In_space [] False rest of
                 Inl e \<Rightarrow> Inl e | Inr ts \<Rightarrow> Inr (token # ts))
         else read_tokens In_space es token quoted rest)
      else if nextchar \<in> quotes then read_tokens (In_quote nextchar) es token quoted rest
      else if nextchar = backslash then read_tokens In_escape In_word token quoted rest
      else read_tokens In_word es (token @ [nextchar]) quoted rest)"

definition shlex_split :: "string \<Rightarrow> error + string list" where
  "shlex_split s = read_tokens In_space In_space [] False s"

section \<open>The host and the effects of the build\<close>

text \<open>
  What the script does to its surroundings is recorded as a trace of events, in order:
  a line given to \<open>log.info\<close>, a call of \<open>subprocess.call\<close> (the command and the working
  directory), a call of \<open>os.makedirs\<close> (the path and \<open>exist_ok\<close>).

  The surroundings answer through the record \<open>host\<close>: the platform queries, the
  \<open>os.path\<close> functions of the platform, and the outcome of each process and directory
  creation, which may depend on everything done so far (the trace).
\<close>

datatype event =
    Log_info string
  | Subprocess_call "string list" "string option"
  | Makedirs string bool

text \<open>\<open>subprocess.call\<close> either returns the exit code of the process or raises \<open>OSError\<close>
  (the program cannot be launched); \<open>Launch_failed\<close> carries \<open>exc.args[-1]\<close>.\<close>

datatype call_outcome = Exit_code int | Launch_failed string

record host =
  platform_system :: string
  platform_architecture0 :: string
  sys_executable :: string
  os_path_join :: "string \<Rightarrow> string \<Rightarrow> string"
  os_path_abspath :: "string \<Rightarrow> string"
  os_path_dirname :: "string \<Rightarrow> string"
  subprocess_call :: "event list \<Rightarrow> string list \<Rightarrow> string option \<Rightarrow> call_outcome"
  os_makedirs :: "event list \<Rightarrow> string \<Rightarrow> bool \<Rightarrow> string option"

section \<open>CMakeExtension and cmake_build_ext\<close>

record CMakeExtension =
  name :: string
  cmake_source_dir :: string

definition CMakeExtension_init :: "host \<Rightarrow> string \<Rightarrow> string \<Rightarrow> CMakeExtension" where
  "CMakeExtension_init h nm source_dir =
     \<lparr>name = nm, cmake_source_dir = os_path_abspath h source_dir\<rparr>"

text \<open>The command object: the options of \<open>build_ext\<close> that \<open>build_extensions\<close> reads, and the
  two extra argument lists (strings before \<open>finalize_options\<close>, token lists after).\<close>

record cmake_build_ext =
  debug :: bool
  dry_run :: bool
  build_temp :: string
  compiler_type :: string
  get_ext_fullpath :: "string \<Rightarrow> string"
  extensions :: "CMakeExtension list"
  cmake_config_args :: "string list"
  cmake_build_args :: "string list"

text \<open>\<open>finalize_options\<close>: the two option strings are tokenized; a \<open>ValueError\<close> of the
  tokenizer propagates.\<close>

definition finalize_options ::
  "cmake_build_ext \<Rightarrow> string \<Rightarrow> string \<Rightarrow> error + cmake_build_ext" where
  "finalize_options self config_args_str build_args_str =
     (case shlex_split config_args_str of
        Inl e \<Rightarrow> Inl e
      | Inr config_args \<Rightarrow>
          (case shlex_split build_args_str of
             Inl e \<Rightarrow> Inl e
           | Inr build_args \<Rightarrow>
               Inr (self\<lparr>cmake_config_args := config_args, cmake_build_args := build_args\<rparr>)))"

text \<open>\<open>spawn(cmd, dry_run, cwd)\<close>: log the command joined by spaces; in a dry run return;
  otherwise run it, and raise \<open>DistutilsExecError\<close> when it cannot be launched or exits
  with a non-zero code.\<close>

definition spawn ::
  "host \<Rightarrow> string list \<Rightarrow> bool \<Rightarrow> string option \<Rightarrow> event list \<Rightarrow> event list \<times> (error + unit)" where
  "spawn h cmd dry cwd tr =
     (let tr1 = tr @ [Log_info (py_join '' '' cmd)] in
      if dry then (tr1, Inr ())
      else
        (case subprocess_call h tr1 cmd cwd of
           Launch_failed msg \<Rightarrow>
             (tr1 @ [Subprocess_call cmd cwd],
              Inl (DistutilsExecError (''command '' @ py_repr_list cmd @ '' failed: '' @ msg)))
         | Exit_code exitcode \<Rightarrow>
             (tr1 @ [Subprocess_call cmd cwd],
              if exitcode \<noteq> 0
              then Inl (DistutilsExecError
                     (''command '' @ py_repr_list cmd @ '' failed with exit code '' @ py_str_int exitcode))
              else Inr ())))"

text \<open>Lines 67 to 103 of setup.py, the values computed for one extension.\<close>

definition extdir :: "host \<Rightarrow> cmake_build_ext \<Rightarrow> CMakeExtension \<Rightarrow> string" where
  "extdir h self ext =
     os_path_join h (os_path_abspath h (os_path_dirname h (get_ext_fullpath self (name ext))))
       ''openpose''"

text \<open>Lines 69 and 70: \<open>cfg\<close> is chosen from the \<open>debug\<close> flag and then assigned
  \<open>'Release'\<close>.\<close>

definition cfg :: "cmake_build_ext \<Rightarrow> string" where
  "cfg self =
     (let cfg0 = (if debug self then ''Debug'' else ''Release'');
          cfg1 = ''Release''
      in cfg1)"

definition cmake_args :: "host \<Rightarrow> cmake_build_ext \<Rightarrow> CMakeExtension \<Rightarrow> string list" where
  "cmake_args h self ext =
     (let args0 =
        [''-DCMAKE_BUILD_TYPE='' @ cfg self,
         ''-DCMAKE_LIBRARY_OUTPUT_DIRECTORY_'' @ py_upper (cfg self) @ ''='' @ extdir h self ext,
         ''-DCMAKE_ARCHIVE_OUTPUT_DIRECTORY_'' @ py_upper (cfg self) @ ''='' @ build_temp self,
         ''-DPYTHON_EXECUTABLE='' @ sys_executable h,
         ''-DBUILD_PYTHON=ON'']
      in
      if platform_system h = ''Windows'' then
        (let plat = (if platform_architecture0 h = ''64bit'' then ''x64'' else ''Win32'');
             args1 = args0 @
               [''-DCMAKE_WINDOWS_EXPORT_ALL_SYMBOLS=TRUE'',
                ''-DCMAKE_RUNTIME_OUTPUT_DIRECTORY_'' @ py_upper (cfg self) @ ''='' @ extdir h self ext]
         in if compiler_type self = ''msvc''
            then args1 @ [''-DCMAKE_GENERATOR_PLATFORM='' @ plat]
            else args1)
      else args0)"

definition config_cmd :: "host \<Rightarrow> cmake_build_ext \<Rightarrow> CMakeExtension \<Rightarrow> string list" where
  "config_cmd h self ext =
     [''cmake'', cmake_source_dir ext] @ cmake_args h self ext @ cmake_config_args self"

definition build_cmd :: "cmake_build_ext \<Rightarrow> string list" where
  "build_cmd self = [''cmake'', ''--build'', ''.'', ''--config'', cfg self] @ cmake_build_args self"

text \<open>The body of the loop over the extensions (lines 65 to 113): create the scratch
  directory, then configure, then build; an exception ends the loop.\<close>

definition build_extension ::
  "host \<Rightarrow> cmake_build_ext \<Rightarrow> CMakeExtension \<Rightarrow> event list \<Rightarrow> event list \<times> (error + unit)" where
  "build_extension h self ext tr =
     (let tr1 = tr @ [Makedirs (build_temp self) True] in
      case os_makedirs h tr (build_temp self) True of
        Some msg \<Rightarrow> (tr1, Inl (OSError msg))
      | None \<Rightarrow>
          (case spawn h (config_cmd h self ext) (dry_run self) (Some (build_temp self)) tr1 of
             (tr2, Inl e) \<Rightarrow> (tr2, Inl e)
           | (tr2, Inr u) \<Rightarrow>
               spawn h (build_cmd self) (dry_run self) (Some (build_temp self)) tr2))"

fun build_loop ::
  "host \<Rightarrow> cmake_build_ext \<Rightarrow> CMakeExtension list \<Rightarrow> event list \<Rightarrow> event list \<times> (error + unit)" where
  "build_loop h self [] tr = (tr, Inr ())"
| "build_loop h self (ext # exts) tr =
     (case build_extension h self ext tr of
        (tr1, Inl e) \<Rightarrow> (tr1, Inl e)
      | (tr1, Inr u) \<Rightarrow> build_loop h self exts tr1)"

text \<open>\<open>build_extensions\<close>: the availability check (a \<open>spawn\<close> with the default
  \<open>dry_run=False\<close>, any \<open>DistutilsExecError\<close> of which is replaced), then the loop.\<close>

definition build_extensions ::
  "host \<Rightarrow> cmake_build_ext \<Rightarrow> event list \<Rightarrow> event list \<times> (error + unit)" where
  "build_extensions h self tr =
     (case spawn h [''cmake'', ''--version''] False None tr of
        (tr1, Inl (DistutilsExecError m)) \<Rightarrow>
          (tr1, Inl (DistutilsExecError ''cannot find CMake executable''))
      | (tr1, Inl e) \<Rightarrow> (tr1, Inl e)
      | (tr1, Inr u) \<Rightarrow> build_loop h self (extensions self) tr1)"

section \<open>install_data\<close>

text \<open>
  The installer is modelled on a POSIX host: \<open>os.path\<close> is \<open>posixpath\<close> and \<open>os.name\<close> is
  \<open>'posix'\<close>, so that \<open>change_root\<close> joins the new root and the path without its leading
  separator.
\<close>

definition change_root :: "string \<Rightarrow> string \<Rightarrow> string" where
  "change_root new_root pathname =
     (if \<not> posix_isabs pathname then posix_join new_root pathname
      else posix_join new_root (tl pathname))"

text \<open>
  The effects of the installer are a trace too: a warning, and the calls of the methods
  \<open>mkpath\<close>, \<open>copy_tree\<close> and \<open>copy_file\<close> of the distutils command. The file system answers
  through the record \<open>filesystem\<close>: the two tests of \<open>os.path\<close>, and what each of the three
  methods returns or raises, all of which may depend on what was done before.
  \<open>copy_tree\<close> returns the list of the files it copied, \<open>copy_file\<close> the pair of the
  destination file name and the flag saying whether it copied.

  The record also carries \<open>convert_path\<close> of the installed distutils, a function of the
  path only: on POSIX it returns its argument in the distutils of the standard library,
  and normalises it (no trailing separator, no \<open>.\<close> component) in later releases.
\<close>

datatype install_event =
    Warn string
  | Mkpath string
  | Copy_tree string string
  | Copy_file string string

record filesystem =
  os_path_isdir :: "install_event list \<Rightarrow> string \<Rightarrow> bool"
  os_path_isfile :: "install_event list \<Rightarrow> string \<Rightarrow> bool"
  mkpath :: "install_event list \<Rightarrow> string \<Rightarrow> error option"
  copy_tree :: "install_event list \<Rightarrow> string \<Rightarrow> string \<Rightarrow> error + string list"
  copy_file :: "install_event list \<Rightarrow> string \<Rightarrow> string \<Rightarrow> error + string \<times> int"
  convert_path :: "string \<Rightarrow> string"

text \<open>An entry of \<open>data_files\<close> is a string or a pair of a directory and a list of sources.\<close>

datatype data_file = Bare string | Into string "string list"

text \<open>What \<open>run\<close> appends to \<open>outfiles\<close>: the first component of what \<open>copy_to\<close> returned, a
  string from \<open>copy_file\<close> and a list of strings from \<open>copy_tree\<close>, or the directory string.\<close>

datatype outfile = Out_str string | Out_list "string list"

record install_data =
  install_dir :: string
  root :: "string option"
  warn_dir :: bool
  data_files :: "data_file list"

type_synonym install_state = "install_event list \<times> outfile list"

definition copy_to ::
  "filesystem \<Rightarrow> string \<Rightarrow> string \<Rightarrow> install_event list
     \<Rightarrow> install_event list \<times> (error + outfile \<times> int)" where
  "copy_to fs file_or_dir dst_dir tr =
     (if os_path_isdir fs tr file_or_dir then
        (let dst = posix_join dst_dir (posix_basename file_or_dir) in
         case copy_tree fs tr file_or_dir dst of
           Inl e \<Rightarrow> (tr @ [Copy_tree file_or_dir dst], Inl e)
         | Inr copied \<Rightarrow> (tr @ [Copy_tree file_or_dir dst], Inr (Out_list copied, 1)))
      else if os_path_isfile fs tr file_or_dir then
        (case copy_file fs tr file_or_dir dst_dir of
           Inl e \<Rightarrow> (tr @ [Copy_file file_or_dir dst_dir], Inl e)
         | Inr (dst_name, copied) \<Rightarrow>
             (tr @ [Copy_file file_or_dir dst_dir], Inr (Out_str dst_name, copied)))
      else
        (tr, Inl (DistutilsFileError
           (''can''  @ [squote] @ ''t copy '' @ [squote] @ file_or_dir @ [squote]
              @ '': doesn'' @ [squote] @ ''t exist or not a regular file or a directory''))))"

text \<open>The inner loop (lines 156 to 159): each source is copied and its result appended.\<close>

fun copy_all ::
  "filesystem \<Rightarrow> string \<Rightarrow> string list \<Rightarrow> install_state \<Rightarrow> install_state \<times> error option" where
  "copy_all fs dir [] st = (st, None)"
| "copy_all fs dir (data # datas) (tr, outfiles) =
     (case copy_to fs (convert_path fs data) dir tr of
        (tr1, Inl e) \<Rightarrow> ((tr1, outfiles), Some e)
      | (tr1, Inr (out, copied)) \<Rightarrow> copy_all fs dir datas (tr1, outfiles @ [out]))"

text \<open>Lines 142 to 146: the directory an entry \<open>(dir, sources)\<close> installs into.\<close>

definition target_dir :: "filesystem \<Rightarrow> install_data \<Rightarrow> string \<Rightarrow> string" where
  "target_dir fs self d =
     (let dir = convert_path fs d in
      if \<not> posix_isabs dir then posix_join (install_dir self) dir
      else (case root self of
              None \<Rightarrow> dir
            | Some r \<Rightarrow> if r \<noteq> [] then change_root r dir else dir))"

text \<open>The body of the loop of \<open>run\<close> for one entry of \<open>data_files\<close>.\<close>

definition install_entry ::
  "filesystem \<Rightarrow> install_data \<Rightarrow> data_file \<Rightarrow> install_state \<Rightarrow> install_state \<times> error option" where
  "install_entry fs self f st =
     (case st of (tr, outfiles) \<Rightarrow>
      (case f of
         Bare p \<Rightarrow>
           (let f1 = convert_path fs p;
                tr1 = (if warn_dir self
                       then tr @ [Warn (''setup script did not provide a directory for ''
                                   @ [squote] @ f1 @ [squote] @ '' -- installing right in ''
                                   @ [squote] @ install_dir self @ [squote])]
                       else tr)
            in case copy_to fs f1 (install_dir self) tr1 of
                 (tr2, Inl e) \<Rightarrow> ((tr2, outfiles), Some e)
               | (tr2, Inr (out, copied)) \<Rightarrow> ((tr2, outfiles @ [out]), None))
       | Into d sources \<Rightarrow>
           (let dir = target_dir fs self d;
                tr1 = tr @ [Mkpath dir]
            in case mkpath fs tr dir of
                 Some e \<Rightarrow> ((tr1, outfiles), Some e)
               | None \<Rightarrow>
                   if sources = [] then ((tr1, outfiles @ [Out_str dir]), None)
                   else copy_all fs dir sources (tr1, outfiles))))"

fun install_all ::
  "filesystem \<Rightarrow> install_data \<Rightarrow> data_file list \<Rightarrow> install_state \<Rightarrow> install_state \<times> error option" where
  "install_all fs self [] st = (st, None)"
| "install_all fs self (f # fs') st =
     (case install_entry fs self f st of
        (st1, Some e) \<Rightarrow> (st1, Some e)
      | (st1, None) \<Rightarrow> install_all fs self fs' st1)"

text \<open>\<open>run\<close>: create the install directory, then install every entry in order.\<close>

definition run :: "filesystem \<Rightarrow> install_data \<Rightarrow> install_state \<Rightarrow> install_state \<times> error option" where
  "run fs self st =
     (case st of (tr, outfiles) \<Rightarrow>
      (case mkpath fs tr (install_dir self) of
         Some e \<Rightarrow> ((tr @ [Mkpath (install_dir self)], outfiles), Some e)
       | None \<Rightarrow> install_all fs self (data_files self) (tr @ [Mkpath (install_dir self)], outfiles)))"

section \<open>The setup call and sample surroundings\<close>

text \<open>
  The values of the \<open>setup(...)\<close> call of the script (its extension and its manifest), and
  concrete surroundings on which the model is evaluated: a Linux host in the directory
  \<open>/proj\<close> where every process exits with code 0, and a file system where \<open>models\<close> is a
  directory of two files and \<open>LICENSE\<close> is a regular file, with the \<open>convert_path\<close> of the
  standard library's distutils.
\<close>

definition linux_host :: host where
  "linux_host =
     \<lparr>platform_system = ''Linux'',
      platform_architecture0 = ''64bit'',
      sys_executable = ''/usr/bin/python3'',
      os_path_join = posix_join,
      os_path_abspath = posix_abspath ''/proj'',
      os_path_dirname = posix_dirname,
      subprocess_call = (\<lambda>tr cmd cwd. Exit_code 0),
      os_makedirs = (\<lambda>tr path exist_ok. None)\<rparr>"

definition ext_modules :: "host \<Rightarrow> CMakeExtension list" where
  "ext_modules h = [CMakeExtension_init h ''openpose'' ''.'']"

definition build_cmd_obj :: "host \<Rightarrow> cmake_build_ext" where
  "build_cmd_obj h =
     \<lparr>debug = False,
      dry_run = False,
      build_temp = ''build/temp.linux-x86_64-3.8'',
      compiler_type = ''unix'',
      get_ext_fullpath = (\<lambda>nm. ''build/lib.linux-x86_64-3.8/'' @ nm @ ''.so''),
      extensions = ext_modules h,
      cmake_config_args = [],
      cmake_build_args = []\<rparr>"

definition sample_fs :: filesystem where
  "sample_fs =
     \<lparr>os_path_isdir = (\<lambda>tr p. p = ''models''),
      os_path_isfile = (\<lambda>tr p. p = ''LICENSE''),
      mkpath = (\<lambda>tr p. None),
      copy_tree = (\<lambda>tr src dst.
         Inr [posix_join dst ''getModels.sh'', posix_join dst ''pose/coco/pose_deploy_linevec.prototxt'']),
      copy_file = (\<lambda>tr src dst. Inr (posix_join dst (posix_basename src), 1)),
      convert_path = (\<lambda>pathname. pathname)\<rparr>"

definition install_cmd_obj :: install_data where
  "install_cmd_obj =
     \<lparr>install_dir = ''/dst'',
      root = None,
      warn_dir = True,
      data_files = [Into ''openpose'' [''models'']]\<rparr>"

text \<open>Variations of the sample surroundings: a \<open>cmake\<close> that runs and exits with code 2
  or 1, a \<open>cmake\<close> that cannot be launched, and the command object in dry-run mode.\<close>

definition exit_2_host :: host where
  "exit_2_host = linux_host\<lparr>subprocess_call := (\<lambda>tr cmd cwd. Exit_code 2)\<rparr>"

definition exit_1_host :: host where
  "exit_1_host = linux_host\<lparr>subprocess_call := (\<lambda>tr cmd cwd. Exit_code 1)\<rparr>"

definition missing_cmake_host :: host where
  "missing_cmake_host =
     linux_host\<lparr>subprocess_call := (\<lambda>tr cmd cwd. Launch_failed ''No such file or directory'')\<rparr>"

definition dry_run_obj :: cmake_build_ext where
  "dry_run_obj = (build_cmd_obj linux_host)\<lparr>dry_run := True\<rparr>"

text \<open>The calls of \<open>subprocess.call\<close> in a trace, in order.\<close>

fun is_call :: "event \<Rightarrow> bool" where
  "is_call (Subprocess_call cmd cwd) = True"
| "is_call e = False"

definition calls :: "event list \<Rightarrow> event list" where
  "calls tr = filter is_call tr"

text \<open>Hosts where the availability check passes and the configure step, or the build step,
  exits with a non-zero code.\<close>

definition configure_fails_host :: host where
  "configure_fails_host =
     linux_host\<lparr>subprocess_call :=
       (\<lambda>tr cmd cwd. if cmd = [''cmake'', ''--version''] then Exit_code 0 else Exit_code 1)\<rparr>"

definition build_fails_host :: host where
  "build_fails_host =
     linux_host\<lparr>subprocess_call :=
       (\<lambda>tr cmd cwd. if take 2 cmd = [''cmake'', ''--build''] then Exit_code 2 else Exit_code 0)\<rparr>"

text \<open>A token that \<open>shlex.split\<close> reads back unchanged without quoting: not empty, and
  free of whitespace, quotes and backslashes. And an extra-argument string with a quoted
  part that has a space in it.\<close>

definition plain_char :: "char \<Rightarrow> bool" where
  "plain_char c = (c \<notin> whitespace \<and> c \<notin> quotes \<and> c \<noteq> backslash)"

definition plain_token :: "string \<Rightarrow> bool" where
  "plain_token t = (t \<noteq> [] \<and> list_all plain_char t)"

definition quoted_flags_arg :: string where
  "quoted_flags_arg = ''-DCMAKE_CXX_FLAGS='' @ [dquote] @ ''-O2 -g'' @ [dquote]"

text \<open>The events of one extension in a build where every step is run and passes: the
  scratch directory, then the log line and the process of the configure command, then
  those of the build command.\<close>

definition build_events :: "host \<Rightarrow> cmake_build_ext \<Rightarrow> CMakeExtension \<Rightarrow> event list" where
  "build_events h self ext =
     [Makedirs (build_temp self) True,
      Log_info (py_join '' '' (config_cmd h self ext)),
      Subprocess_call (config_cmd h self ext) (Some (build_temp self)),
      Log_info (py_join '' '' (build_cmd self)),
      Subprocess_call (build_cmd self) (Some (build_temp self))]"

text \<open>
  \<open>shlex.quote\<close> and \<open>shlex.join\<close> of the module \<open>shlex\<close>, the quoting inverse of
  \<open>shlex.split\<close>: an empty string becomes two single quotes; a string of letters, digits
  and the characters \<open>_@%+=:,./-\<close> only is left as it is; any other string is put in
  single quotes, each single quote of it written as \<open>'"'"'\<close>. \<open>join\<close> separates the quoted
  tokens by single spaces.
\<close>

definition safe_char :: "char \<Rightarrow> bool" where
  "safe_char c =
     (let n = (of_char c :: nat) in
      (97 \<le> n \<and> n \<le> 122) \<or> (65 \<le> n \<and> n \<le> 90) \<or> (48 \<le> n \<and> n \<le> 57)
      \<or> c \<in> set ''_@%+=:,./-'')"

definition shlex_quote :: "string \<Rightarrow> string" where
  "shlex_quote s =
     (if s = [] then [squote, squote]
      else if list_all safe_char s then s
      else [squote]
           @ concat (map (\<lambda>c. if c = squote then [squote, dquote, squote, dquote, squote] else [c]) s)
           @ [squote])"

definition shlex_join :: "string list \<Rightarrow> string" where
  "shlex_join split_command = py_join '' '' (map shlex_quote split_command)"

text \<open>A proper name of a directory entry: not empty, not \<open>.\<close> or \<open>..\<close>, and without a
  separator. And the number of leading separators that \<open>normpath\<close> keeps.\<close>

definition proper_name :: "string \<Rightarrow> bool" where
  "proper_name b = (b \<noteq> [] \<and> b \<noteq> ''.'' \<and> b \<noteq> ''..'' \<and> sep \<notin> set b)"

definition initial_slashes :: "string \<Rightarrow> nat" where
  "initial_slashes path =
     (if posix_isabs path
      then (if take 2 path = ''//'' \<and> take 3 path \<noteq> ''///'' then 2 else 1)
      else 0)"

text \<open>A file system where the directory is written \<open>models/\<close>, and the command object of a
  manifest with one entry that has no sources.\<close>

definition slash_fs :: filesystem where
  "slash_fs = sample_fs\<lparr>os_path_isdir := (\<lambda>tr p. p = ''models/'')\<rparr>"

definition empty_dir_cmd_obj :: install_data where
  "empty_dir_cmd_obj = install_cmd_obj\<lparr>data_files := [Into ''openpose/cache'' []]\<rparr>"

section \<open>The build profile\<close>

lemma cmake_args_debug: "cmake_args h (self\<lparr>debug := b\<rparr>) ext = cmake_args h self ext"
  by (simp add: cmake_args_def cfg_def extdir_def Let_def)

lemma config_cmd_debug: "config_cmd h (self\<lparr>debug := b\<rparr>) ext = config_cmd h self ext"
  by (simp add: config_cmd_def cmake_args_debug)

lemma build_cmd_debug: "build_cmd (self\<lparr>debug := b\<rparr>) = build_cmd self"
  by (simp add: build_cmd_def cfg_def)

lemma build_extension_debug:
  "build_extension h (self\<lparr>debug := b\<rparr>) ext tr = build_extension h self ext tr"
  by (simp add: build_extension_def config_cmd_debug build_cmd_debug
           cong: option.case_cong sum.case_cong)

lemma build_loop_debug:
  "build_loop h (self\<lparr>debug := b\<rparr>) exts tr = build_loop h self exts tr"
  by (induction exts arbitrary: tr) (simp_all add: build_extension_debug)

section \<open>Platform-specific options\<close>

lemma py_upper_release: "py_upper ''Release'' = ''RELEASE''"
  by code_simp

lemma cmake_args_not_windows:
  "platform_system h \<noteq> ''Windows'' \<Longrightarrow>
   cmake_args h self ext =
     [''-DCMAKE_BUILD_TYPE=Release'',
      ''-DCMAKE_LIBRARY_OUTPUT_DIRECTORY_RELEASE='' @ extdir h self ext,
      ''-DCMAKE_ARCHIVE_OUTPUT_DIRECTORY_RELEASE='' @ build_temp self,
      ''-DPYTHON_EXECUTABLE='' @ sys_executable h,
      ''-DBUILD_PYTHON=ON'']"
  by (simp add: cmake_args_def cfg_def py_upper_release)

lemma cmake_word_not_option:
  "''cmake'' \<noteq> ''-DCMAKE_WINDOWS_EXPORT_ALL_SYMBOLS=TRUE''
   \<and> \<not> prefix ''-DCMAKE_RUNTIME_OUTPUT_DIRECTORY_'' ''cmake''"
  by simp

lemma cmake_args_no_windows_options:
  assumes "platform_system h \<noteq> ''Windows''"
  shows "''-DCMAKE_WINDOWS_EXPORT_ALL_SYMBOLS=TRUE'' \<notin> set (cmake_args h self ext)"
    and "\<forall>a \<in> set (cmake_args h self ext). \<not> prefix ''-DCMAKE_RUNTIME_OUTPUT_DIRECTORY_'' a"
  using assms by (simp_all add: cmake_args_not_windows)

lemma set_config_cmd:
  "set (config_cmd h self ext)
     = {''cmake'', cmake_source_dir ext} \<union> set (cmake_args h self ext) \<union> set (cmake_config_args self)"
  by (simp add: config_cmd_def)

lemma sample_source_dir: "cmake_source_dir (hd (ext_modules linux_host)) = ''/proj''"
  by code_simp

lemma sample_no_config_args: "cmake_config_args (build_cmd_obj linux_host) = []"
  by (simp add: build_cmd_obj_def)

lemma proj_not_option:
  "''/proj'' \<noteq> ''-DCMAKE_WINDOWS_EXPORT_ALL_SYMBOLS=TRUE''
   \<and> \<not> prefix ''-DCMAKE_RUNTIME_OUTPUT_DIRECTORY_'' ''/proj''"
  by simp

text \<open>
  C2. On a host whose \<open>platform.system()\<close> is not \<open>'Windows'\<close>, the computed list
  \<open>cmake_args\<close> has no element \<open>-DCMAKE_WINDOWS_EXPORT_ALL_SYMBOLS=TRUE\<close> and no element that
  starts with \<open>-DCMAKE_RUNTIME_OUTPUT_DIRECTORY_\<close>, whatever the paths, the interpreter and
  the options of the command are. In the whole configure command such an element can
  only be the source directory or one of the extra arguments the user gave.
\<close>

theorem no_windows_options_off_windows:
  assumes "platform_system h \<noteq> ''Windows''"
  shows "''-DCMAKE_WINDOWS_EXPORT_ALL_SYMBOLS=TRUE'' \<notin> set (cmake_args h self ext)
   \<and> (\<forall>a \<in> set (cmake_args h self ext). \<not> prefix ''-DCMAKE_RUNTIME_OUTPUT_DIRECTORY_'' a)
   \<and> (\<forall>a \<in> set (config_cmd h self ext).
         a = ''-DCMAKE_WINDOWS_EXPORT_ALL_SYMBOLS=TRUE''
           \<or> prefix ''-DCMAKE_RUNTIME_OUTPUT_DIRECTORY_'' a \<longrightarrow>
         a = cmake_source_dir ext \<or> a \<in> set (cmake_config_args self))"
proof (intro conjI ballI impI)
  show "''-DCMAKE_WINDOWS_EXPORT_ALL_SYMBOLS=TRUE'' \<notin> set (cmake_args h self ext)"
    by (rule cmake_args_no_windows_options(1) [OF assms])
next
  fix a assume "a \<in> set (cmake_args h self ext)"
  then show "\<not> prefix ''-DCMAKE_RUNTIME_OUTPUT_DIRECTORY_'' a"
    using cmake_args_no_windows_options(2) [OF assms] by blast
next
  fix a
  assume mem: "a \<in> set (config_cmd h self ext)"
    and opt: "a = ''-DCMAKE_WINDOWS_EXPORT_ALL_SYMBOLS=TRUE''
               \<or> prefix ''-DCMAKE_RUNTIME_OUTPUT_DIRECTORY_'' a"
  from mem have "a = ''cmake'' \<or> a = cmake_source_dir ext
                   \<or> a \<in> set (cmake_args h self ext) \<or> a \<in> set (cmake_config_args self)"
    unfolding set_config_cmd by blast
  moreover have "a \<noteq> ''cmake''"
    using opt cmake_word_not_option by blast
  moreover have "a \<notin> set (cmake_args h self ext)"
    using opt cmake_args_no_windows_options [OF assms, of self ext] by blast
  ultimately show "a = cmake_source_dir ext \<or> a \<in> set (cmake_config_args self)"
    by blast
qed

theorem no_windows_options_off_windows_witness:
  "platform_system linux_host \<noteq> ''Windows''
   \<and> ''-DCMAKE_WINDOWS_EXPORT_ALL_SYMBOLS=TRUE''
        \<notin> set (cmake_args linux_host (build_cmd_obj linux_host) (hd (ext_modules linux_host)))
   \<and> filter (prefix ''-DCMAKE_RUNTIME_OUTPUT_DIRECTORY_'')
        (cmake_args linux_host (build_cmd_obj linux_host) (hd (ext_modules linux_host))) = []
   \<and> filter (\<lambda>a. a = ''-DCMAKE_WINDOWS_EXPORT_ALL_SYMBOLS=TRUE''
                  \<or> prefix ''-DCMAKE_RUNTIME_OUTPUT_DIRECTORY_'' a)
        (config_cmd linux_host (build_cmd_obj linux_host) (hd (ext_modules linux_host))) = []"
proof -
  let ?obj = "build_cmd_obj linux_host"
  let ?ext = "hd (ext_modules linux_host)"
  have h: "platform_system linux_host \<noteq> ''Windows''"
    by (simp add: linux_host_def)
  note t = no_windows_options_off_windows [OF h, of ?obj ?ext]
  have a: "''-DCMAKE_WINDOWS_EXPORT_ALL_SYMBOLS=TRUE'' \<notin> set (cmake_args linux_host ?obj ?ext)"
    using t by blast
  have b: "filter (prefix ''-DCMAKE_RUNTIME_OUTPUT_DIRECTORY_'') (cmake_args linux_host ?obj ?ext) = []"
    using t by (simp only: filter_empty_conv) blast
  have t3: "\<forall>a \<in> set (config_cmd linux_host ?obj ?ext).
          a = ''-DCMAKE_WINDOWS_EXPORT_ALL_SYMBOLS=TRUE''
            \<or> prefix ''-DCMAKE_RUNTIME_OUTPUT_DIRECTORY_'' a \<longrightarrow>
          a = cmake_source_dir ?ext \<or> a \<in> set (cmake_config_args ?obj)"
    using t by blast
  have "\<forall>a \<in> set (config_cmd linux_host ?obj ?ext).
          \<not> (a = ''-DCMAKE_WINDOWS_EXPORT_ALL_SYMBOLS=TRUE''
                \<or> prefix ''-DCMAKE_RUNTIME_OUTPUT_DIRECTORY_'' a)"
  proof
    fix a assume m: "a \<in> set (config_cmd linux_host ?obj ?ext)"
    show "\<not> (a = ''-DCMAKE_WINDOWS_EXPORT_ALL_SYMBOLS=TRUE''
                \<or> prefix ''-DCMAKE_RUNTIME_OUTPUT_DIRECTORY_'' a)"
    proof
      assume o: "a = ''-DCMAKE_WINDOWS_EXPORT_ALL_SYMBOLS=TRUE''
                \<or> prefix ''-DCMAKE_RUNTIME_OUTPUT_DIRECTORY_'' a"
      with t3 m have "a = cmake_source_dir ?ext \<or> a \<in> set (cmake_config_args ?obj)"
        by blast
      then have "a = ''/proj''"
        by (simp only: sample_source_dir sample_no_config_args) simp
      with o proj_not_option show False by blast
    qed
  qed
  then have c: "filter (\<lambda>a. a = ''-DCMAKE_WINDOWS_EXPORT_ALL_SYMBOLS=TRUE''
                  \<or> prefix ''-DCMAKE_RUNTIME_OUTPUT_DIRECTORY_'' a)
        (config_cmd linux_host ?obj ?ext) = []"
    by (simp only: filter_empty_conv)
  show ?thesis
    using h a b c by blast
qed

section \<open>Failures of spawn\<close>

lemma spawn_dry: "spawn h cmd True cwd tr = (tr @ [Log_info (py_join '' '' cmd)], Inr ())"
  by (simp add: spawn_def)

lemma spawn_exit:
  "subprocess_call h (tr @ [Log_info (py_join '' '' cmd)]) cmd cwd = Exit_code n \<Longrightarrow>
   spawn h cmd False cwd tr =
     (tr @ [Log_info (py_join '' '' cmd), Subprocess_call cmd cwd],
      if n \<noteq> 0
      then Inl (DistutilsExecError
             (''command '' @ py_repr_list cmd @ '' failed with exit code '' @ py_str_int n))
      else Inr ())"
  by (simp add: spawn_def)

lemma spawn_launch_failed:
  "subprocess_call h (tr @ [Log_info (py_join '' '' cmd)]) cmd cwd = Launch_failed msg \<Longrightarrow>
   spawn h cmd False cwd tr =
     (tr @ [Log_info (py_join '' '' cmd), Subprocess_call cmd cwd],
      Inl (DistutilsExecError (''command '' @ py_repr_list cmd @ '' failed: '' @ msg)))"
  by (simp add: spawn_def)

lemma repr_cmake_version:
  "py_repr_list [''cmake'', ''--version'']
     = ''['' @ [squote] @ ''cmake'' @ [squote] @ '', '' @ [squote] @ ''--version'' @ [squote] @ '']''"
  by code_simp

lemma str_2: "py_str_int 2 = ''2''"
  by code_simp

text \<open>The example of the specification: exit code 2 of \<open>cmake --version\<close>.\<close>

lemma spawn_exit_2_example:
  "snd (spawn exit_2_host [''cmake'', ''--version''] False None [])
     = Inl (DistutilsExecError
         (''command ['' @ [squote] @ ''cmake'' @ [squote] @ '', '' @ [squote] @ ''--version''
            @ [squote] @ ''] failed with exit code 2''))"
  by (simp add: spawn_exit [where n = 2] exit_2_host_def repr_cmake_version str_2)

text \<open>
  C4. When the process that \<open>spawn\<close> runs (so not in a dry run) returns an exit code \<open>n\<close>
  other than 0, \<open>spawn\<close> raises \<open>DistutilsExecError\<close> with a message that contains the
  \<open>repr\<close> of the argument vector and the decimal rendering of \<open>n\<close>.
\<close>

theorem spawn_exit_code_message:
  assumes "subprocess_call h (tr @ [Log_info (py_join '' '' cmd)]) cmd cwd = Exit_code n"
    and "n \<noteq> 0"
  shows "\<exists>m. snd (spawn h cmd False cwd tr) = Inl (DistutilsExecError m)
             \<and> sublist (py_repr_list cmd) m \<and> sublist (py_str_int n) m"
proof -
  let ?m = "''command '' @ py_repr_list cmd @ '' failed with exit code '' @ py_str_int n"
  have "snd (spawn h cmd False cwd tr) = Inl (DistutilsExecError ?m)"
    using assms by (simp add: spawn_exit)
  moreover have "sublist (py_repr_list cmd) ?m"
    unfolding sublist_def by blast
  moreover have "sublist (py_str_int n) ?m"
    unfolding sublist_def
    by (rule exI [of _ "''command '' @ py_repr_list cmd @ '' failed with exit code ''"],
        rule exI [of _ "[]"]) simp
  ultimately show ?thesis by blast
qed

theorem spawn_exit_code_message_witness:
  "subprocess_call exit_2_host ([] @ [Log_info (py_join '' '' [''cmake'', ''--version''])])
       [''cmake'', ''--version''] None = Exit_code 2
   \<and> (2::int) \<noteq> 0
   \<and> (\<exists>m. snd (spawn exit_2_host [''cmake'', ''--version''] False None []) = Inl (DistutilsExecError m)
          \<and> sublist (py_repr_list [''cmake'', ''--version'']) m \<and> sublist (py_str_int 2) m)"
proof -
  have a: "subprocess_call exit_2_host ([] @ [Log_info (py_join '' '' [''cmake'', ''--version''])])
       [''cmake'', ''--version''] None = Exit_code 2"
    by (simp add: exit_2_host_def)
  have b: "(2::int) \<noteq> 0" by simp
  show ?thesis
    using a b spawn_exit_code_message [OF a b] by blast
qed

section \<open>Kinds of failure\<close>

lemma failure_messages_differ:
  "''command '' @ r @ '' failed: '' @ msg \<noteq> ''command '' @ r @ '' failed with exit code '' @ s"
  by simp

lemma availability_check_fails:
  assumes "subprocess_call h (tr @ [Log_info ''cmake --version'']) [''cmake'', ''--version''] None \<noteq> Exit_code 0"
  shows "build_extensions h self tr =
           (tr @ [Log_info ''cmake --version'', Subprocess_call [''cmake'', ''--version''] None],
            Inl (DistutilsExecError ''cannot find CMake executable''))"
proof (cases "subprocess_call h (tr @ [Log_info ''cmake --version'']) [''cmake'', ''--version''] None")
  case (Exit_code n)
  with assms have "n \<noteq> 0" by simp
  with Exit_code show ?thesis
    by (simp add: build_extensions_def spawn_exit [where n = n])
next
  case (Launch_failed msg)
  then show ?thesis
    by (simp add: build_extensions_def spawn_launch_failed [where msg = msg])
qed

lemma availability_check_passes:
  assumes "subprocess_call h (tr @ [Log_info ''cmake --version'']) [''cmake'', ''--version''] None = Exit_code 0"
  shows "build_extensions h self tr =
           build_loop h self (extensions self)
             (tr @ [Log_info ''cmake --version'', Subprocess_call [''cmake'', ''--version''] None])"
  using assms by (simp add: build_extensions_def spawn_exit [where n = 0])

lemma build_extension_config_error:
  assumes "os_makedirs h tr (build_temp self) True = None"
    and "spawn h (config_cmd h self ext) (dry_run self) (Some (build_temp self))
           (tr @ [Makedirs (build_temp self) True]) = (tr2, Inl e)"
  shows "build_extension h self ext tr = (tr2, Inl e)"
  using assms by (simp add: build_extension_def)

lemma build_extension_build_error:
  assumes "os_makedirs h tr (build_temp self) True = None"
    and "spawn h (config_cmd h self ext) (dry_run self) (Some (build_temp self))
           (tr @ [Makedirs (build_temp self) True]) = (tr2, Inr ())"
  shows "build_extension h self ext tr =
           spawn h (build_cmd self) (dry_run self) (Some (build_temp self)) tr2"
  using assms by (simp add: build_extension_def)

lemma config_cmd_not_version:
  "platform_system h \<noteq> ''Windows'' \<Longrightarrow> config_cmd h self ext \<noteq> [''cmake'', ''--version'']"
  by (simp add: config_cmd_def cmake_args_not_windows)

lemma take_2_config_cmd:
  "cmake_source_dir ext \<noteq> ''--build'' \<Longrightarrow> take 2 (config_cmd h self ext) \<noteq> [''cmake'', ''--build'']"
  by (simp add: config_cmd_def)

lemma take_2_build_cmd: "take 2 (build_cmd self) = [''cmake'', ''--build'']"
  by (simp add: build_cmd_def)

text \<open>
  C3, as the code has it. \<open>spawn\<close> raises the same class \<open>DistutilsExecError\<close> for a
  process that cannot be launched and for one that exits with a non-zero code; the two
  differ by their messages only, \<open>command <argv> failed: <OS error text>\<close> and
  \<open>command <argv> failed with exit code <n>\<close>, which are never equal. The availability
  check replaces either of them by \<open>DistutilsExecError('cannot find CMake executable')\<close>;
  the configure and the build step of an extension let the error of \<open>spawn\<close> through
  as it is.
\<close>

theorem spawn_failures_by_message_only:
  "(subprocess_call h (tr @ [Log_info (py_join '' '' cmd)]) cmd cwd = Launch_failed msg \<longrightarrow>
      snd (spawn h cmd False cwd tr)
        = Inl (DistutilsExecError (''command '' @ py_repr_list cmd @ '' failed: '' @ msg)))
   \<and> (subprocess_call h (tr @ [Log_info (py_join '' '' cmd)]) cmd cwd = Exit_code n \<and> n \<noteq> 0 \<longrightarrow>
      snd (spawn h cmd False cwd tr)
        = Inl (DistutilsExecError
            (''command '' @ py_repr_list cmd @ '' failed with exit code '' @ py_str_int n)))
   \<and> ''command '' @ py_repr_list cmd @ '' failed: '' @ msg
        \<noteq> ''command '' @ py_repr_list cmd @ '' failed with exit code '' @ py_str_int n
   \<and> (subprocess_call h (tr @ [Log_info ''cmake --version'']) [''cmake'', ''--version''] None
          \<noteq> Exit_code 0 \<longrightarrow>
      snd (build_extensions h self tr) = Inl (DistutilsExecError ''cannot find CMake executable''))
   \<and> (os_makedirs h tr (build_temp self) True = None
        \<and> spawn h (config_cmd h self ext) (dry_run self) (Some (build_temp self))
             (tr @ [Makedirs (build_temp self) True]) = (tr2, Inl e) \<longrightarrow>
      snd (build_extension h self ext tr) = Inl e)
   \<and> (os_makedirs h tr (build_temp self) True = None
        \<and> spawn h (config_cmd h self ext) (dry_run self) (Some (build_temp self))
             (tr @ [Makedirs (build_temp self) True]) = (tr2, Inr ())
        \<and> snd (spawn h (build_cmd self) (dry_run self) (Some (build_temp self)) tr2) = Inl e \<longrightarrow>
      snd (build_extension h self ext tr) = Inl e)"
proof (intro conjI impI)
  show "''command '' @ py_repr_list cmd @ '' failed: '' @ msg
        \<noteq> ''command '' @ py_repr_list cmd @ '' failed with exit code '' @ py_str_int n"
    by (rule failure_messages_differ)
qed (auto simp: spawn_launch_failed spawn_exit availability_check_fails
       build_extension_config_error build_extension_build_error)

theorem spawn_failures_by_message_only_witness:
  "subprocess_call missing_cmake_host ([] @ [Log_info (py_join '' '' [''cmake'', ''--version''])])
       [''cmake'', ''--version''] None = Launch_failed ''No such file or directory''
   \<and> snd (spawn missing_cmake_host [''cmake'', ''--version''] False None [])
       = Inl (DistutilsExecError
           (''command '' @ py_repr_list [''cmake'', ''--version''] @ '' failed: ''
              @ ''No such file or directory''))
   \<and> subprocess_call exit_1_host ([] @ [Log_info (py_join '' '' [''cmake'', ''--version''])])
       [''cmake'', ''--version''] None = Exit_code 1
   \<and> snd (spawn exit_1_host [''cmake'', ''--version''] False None [])
       = Inl (DistutilsExecError
           (''command '' @ py_repr_list [''cmake'', ''--version''] @ '' failed with exit code ''
              @ py_str_int 1))
   \<and> snd (build_extensions exit_1_host (build_cmd_obj linux_host) [])
       = Inl (DistutilsExecError ''cannot find CMake executable'')
   \<and> snd (build_extension configure_fails_host (build_cmd_obj linux_host)
             (hd (ext_modules linux_host)) [])
       = Inl (DistutilsExecError
           (''command ''
              @ py_repr_list (config_cmd configure_fails_host (build_cmd_obj linux_host)
                  (hd (ext_modules linux_host)))
              @ '' failed with exit code '' @ py_str_int 1))
   \<and> snd (build_extension build_fails_host (build_cmd_obj linux_host)
             (hd (ext_modules linux_host)) [])
       = Inl (DistutilsExecError
           (''command '' @ py_repr_list (build_cmd (build_cmd_obj linux_host))
              @ '' failed with exit code '' @ py_str_int 2))"
proof -
  let ?obj = "build_cmd_obj linux_host"
  let ?ext = "hd (ext_modules linux_host)"
  let ?bt = "build_temp ?obj"
  let ?v = "[''cmake'', ''--version'']"
  have a1: "subprocess_call missing_cmake_host ([] @ [Log_info (py_join '' '' ?v)]) ?v None
              = Launch_failed ''No such file or directory''"
    by (simp add: missing_cmake_host_def)
  have a2: "subprocess_call exit_1_host ([] @ [Log_info (py_join '' '' ?v)]) ?v None = Exit_code 1"
    by (simp add: exit_1_host_def)
  have a3: "subprocess_call exit_1_host ([] @ [Log_info ''cmake --version'']) ?v None \<noteq> Exit_code 0"
    by (simp add: exit_1_host_def)
  have nw1: "platform_system configure_fails_host \<noteq> ''Windows''"
    by (simp add: configure_fails_host_def linux_host_def)
  have nw2: "platform_system build_fails_host \<noteq> ''Windows''"
    by (simp add: build_fails_host_def linux_host_def)
  have nodry: "dry_run ?obj = False"
    by (simp add: build_cmd_obj_def)
  let ?cc = "config_cmd configure_fails_host ?obj ?ext"
  let ?tr2 = "[Makedirs ?bt True, Log_info (py_join '' '' ?cc), Subprocess_call ?cc (Some ?bt)]"
  let ?e = "DistutilsExecError (''command '' @ py_repr_list ?cc @ '' failed with exit code '' @ py_str_int 1)"
  have m1: "os_makedirs configure_fails_host [] ?bt True = None"
    by (simp add: configure_fails_host_def linux_host_def)
  have c1: "subprocess_call configure_fails_host
              ([Makedirs ?bt True] @ [Log_info (py_join '' '' ?cc)]) ?cc (Some ?bt) = Exit_code 1"
    using config_cmd_not_version [OF nw1, of ?obj ?ext]
    by (simp add: configure_fails_host_def)
  have s1: "spawn configure_fails_host ?cc (dry_run ?obj) (Some ?bt) ([] @ [Makedirs ?bt True])
              = (?tr2, Inl ?e)"
    using spawn_exit [OF c1] by (simp add: nodry)
  let ?cb = "config_cmd build_fails_host ?obj ?ext"
  let ?bc = "build_cmd ?obj"
  let ?tr3 = "[Makedirs ?bt True, Log_info (py_join '' '' ?cb), Subprocess_call ?cb (Some ?bt)]"
  let ?e2 = "DistutilsExecError (''command '' @ py_repr_list ?bc @ '' failed with exit code '' @ py_str_int 2)"
  have m2: "os_makedirs build_fails_host [] ?bt True = None"
    by (simp add: build_fails_host_def linux_host_def)
  have c2: "subprocess_call build_fails_host
              ([Makedirs ?bt True] @ [Log_info (py_join '' '' ?cb)]) ?cb (Some ?bt) = Exit_code 0"
    using take_2_config_cmd [of ?ext build_fails_host ?obj]
    by (simp add: build_fails_host_def sample_source_dir)
  have s2: "spawn build_fails_host ?cb (dry_run ?obj) (Some ?bt) ([] @ [Makedirs ?bt True])
              = (?tr3, Inr ())"
    using spawn_exit [OF c2] by (simp add: nodry)
  have c3: "subprocess_call build_fails_host (?tr3 @ [Log_info (py_join '' '' ?bc)]) ?bc (Some ?bt)
              = Exit_code 2"
    by (simp add: build_fails_host_def take_2_build_cmd)
  have s3: "snd (spawn build_fails_host ?bc (dry_run ?obj) (Some ?bt) ?tr3) = Inl ?e2"
    using spawn_exit [OF c3] by (simp add: nodry)
  note t1 = spawn_failures_by_message_only
    [of missing_cmake_host "[]" ?v None "''No such file or directory''" 1 ?obj ?ext "[]" "OSError []"]
  note t2 = spawn_failures_by_message_only
    [of exit_1_host "[]" ?v None "[]" 1 ?obj ?ext "[]" "OSError []"]
  note t3 = spawn_failures_by_message_only
    [of configure_fails_host "[]" ?v None "[]" 1 ?obj ?ext ?tr2 ?e]
  note t4 = spawn_failures_by_message_only
    [of build_fails_host "[]" ?v None "[]" 1 ?obj ?ext ?tr3 ?e2]
  have r1: "snd (spawn missing_cmake_host ?v False None [])
       = Inl (DistutilsExecError (''command '' @ py_repr_list ?v @ '' failed: ''
              @ ''No such file or directory''))"
    using t1 a1 by blast
  have r2: "snd (spawn exit_1_host ?v False None [])
       = Inl (DistutilsExecError (''command '' @ py_repr_list ?v @ '' failed with exit code ''
              @ py_str_int 1))"
    using t2 a2 by simp
  have r3: "snd (build_extensions exit_1_host ?obj [])
       = Inl (DistutilsExecError ''cannot find CMake executable'')"
    using t2 a3 by blast
  have r4: "snd (build_extension configure_fails_host ?obj ?ext []) = Inl ?e"
    using t3 m1 s1 by simp
  have r5: "snd (build_extension build_fails_host ?obj ?ext []) = Inl ?e2"
    using t4 m2 s2 s3 by simp
  show ?thesis
    using a1 a2 r1 r2 r3 r4 r5 by blast
qed

text \<open>
  C3, as the claim states it, fails at the availability check: a \<open>cmake\<close> that runs and
  exits with code 1 is reported by the very error of a \<open>cmake\<close> that cannot be launched,
  without the command and without the exit code.
\<close>

theorem availability_check_same_error:
  "snd (build_extensions exit_1_host (build_cmd_obj linux_host) [])
     = Inl (DistutilsExecError ''cannot find CMake executable'')
   \<and> snd (build_extensions missing_cmake_host (build_cmd_obj linux_host) [])
     = Inl (DistutilsExecError ''cannot find CMake executable'')"
  by (simp add: availability_check_fails exit_1_host_def missing_cmake_host_def)

section \<open>The invocations of a build\<close>

lemma set_spawn:
  "set (fst (spawn h cmd dry cwd tr))
     \<subseteq> set tr \<union> {Log_info (py_join '' '' cmd), Subprocess_call cmd cwd}"
  by (auto simp: spawn_def Let_def split: call_outcome.split)

lemma set_build_extension:
  "set (fst (build_extension h self ext tr))
     \<subseteq> set tr \<union> {Makedirs (build_temp self) True,
                    Log_info (py_join '' '' (config_cmd h self ext)),
                    Subprocess_call (config_cmd h self ext) (Some (build_temp self)),
                    Log_info (py_join '' '' (build_cmd self)),
                    Subprocess_call (build_cmd self) (Some (build_temp self))}"
proof (cases "os_makedirs h tr (build_temp self) True")
  case (Some msg)
  then show ?thesis by (auto simp: build_extension_def)
next
  case None
  let ?bt = "build_temp self"
  let ?tr1 = "tr @ [Makedirs ?bt True]"
  obtain tr2 r where c: "spawn h (config_cmd h self ext) (dry_run self) (Some ?bt) ?tr1 = (tr2, r)"
    by (cases "spawn h (config_cmd h self ext) (dry_run self) (Some ?bt) ?tr1")
  have s2: "set tr2 \<subseteq> set ?tr1 \<union> {Log_info (py_join '' '' (config_cmd h self ext)),
                                   Subprocess_call (config_cmd h self ext) (Some ?bt)}"
    using set_spawn [of h "config_cmd h self ext" "dry_run self" "Some ?bt" ?tr1] c by simp
  show ?thesis
  proof (cases r)
    case (Inl e)
    with None c s2 show ?thesis by (auto simp: build_extension_def)
  next
    case (Inr u)
    have "set (fst (spawn h (build_cmd self) (dry_run self) (Some ?bt) tr2))
            \<subseteq> set tr2 \<union> {Log_info (py_join '' '' (build_cmd self)),
                           Subprocess_call (build_cmd self) (Some ?bt)}"
      by (rule set_spawn)
    with None c Inr s2 show ?thesis by (auto simp: build_extension_def)
  qed
qed

lemma set_build_loop:
  "set (fst (build_loop h self exts tr))
     \<subseteq> set tr \<union> (\<Union>ext \<in> set exts. set (build_events h self ext))"
proof (induction exts arbitrary: tr)
  case Nil
  then show ?case by simp
next
  case (Cons ext exts)
  obtain tr1 r where step: "build_extension h self ext tr = (tr1, r)"
    by (cases "build_extension h self ext tr")
  have s1: "set tr1 \<subseteq> set tr \<union> set (build_events h self ext)"
    using set_build_extension [of h self ext tr] step by (simp add: build_events_def)
  show ?case
  proof (cases r)
    case (Inl e)
    with step s1 show ?thesis by auto
  next
    case (Inr u)
    have "set (fst (build_loop h self exts tr1))
            \<subseteq> set tr1 \<union> (\<Union>ext \<in> set exts. set (build_events h self ext))"
      by (rule Cons.IH)
    with step Inr s1 show ?thesis by auto
  qed
qed

lemma set_build_extensions:
  "set (fst (build_extensions h self tr))
     \<subseteq> set tr \<union> {Log_info ''cmake --version'', Subprocess_call [''cmake'', ''--version''] None}
         \<union> (\<Union>ext \<in> set (extensions self). set (build_events h self ext))"
proof (cases "subprocess_call h (tr @ [Log_info ''cmake --version'']) [''cmake'', ''--version''] None
                = Exit_code 0")
  case True
  let ?tr1 = "tr @ [Log_info ''cmake --version'', Subprocess_call [''cmake'', ''--version''] None]"
  have "set (fst (build_loop h self (extensions self) ?tr1))
          \<subseteq> set ?tr1 \<union> (\<Union>ext \<in> set (extensions self). set (build_events h self ext))"
    by (rule set_build_loop)
  then show ?thesis
    by (auto simp: availability_check_passes [OF True])
next
  case False
  show ?thesis
    by (auto simp: availability_check_fails [OF False])
qed

lemma build_extension_all_pass:
  assumes "\<And>t c w. subprocess_call h t c w = Exit_code 0"
    and "\<And>t. os_makedirs h t (build_temp self) True = None"
    and "\<not> dry_run self"
  shows "build_extension h self ext tr = (tr @ build_events h self ext, Inr ())"
  using assms
  by (simp add: build_extension_def build_events_def spawn_exit [where n = 0])

lemma build_loop_all_pass:
  assumes "\<And>t c w. subprocess_call h t c w = Exit_code 0"
    and "\<And>t. os_makedirs h t (build_temp self) True = None"
    and "\<not> dry_run self"
  shows "build_loop h self exts tr = (tr @ concat (map (build_events h self) exts), Inr ())"
proof (induction exts arbitrary: tr)
  case Nil
  then show ?case by simp
next
  case (Cons ext exts)
  show ?case
    by (simp add: build_extension_all_pass [OF assms] Cons.IH)
qed

lemma build_extensions_all_pass:
  assumes "\<And>t c w. subprocess_call h t c w = Exit_code 0"
    and "\<And>t. os_makedirs h t (build_temp self) True = None"
    and "\<not> dry_run self"
  shows "build_extensions h self tr =
           (tr @ [Log_info ''cmake --version'', Subprocess_call [''cmake'', ''--version''] None]
               @ concat (map (build_events h self) (extensions self)),
            Inr ())"
  by (simp add: availability_check_passes [OF assms(1)] build_loop_all_pass [OF assms])

lemma sample_debug_events:
  "[] @ [Log_info ''cmake --version'', Subprocess_call [''cmake'', ''--version''] None]
      @ concat (map (build_events linux_host ((build_cmd_obj linux_host)\<lparr>debug := True\<rparr>))
                  (extensions (build_cmd_obj linux_host)))
   = [Log_info ''cmake --version'',
      Subprocess_call [''cmake'', ''--version''] None,
      Makedirs ''build/temp.linux-x86_64-3.8'' True,
      Log_info ''cmake /proj -DCMAKE_BUILD_TYPE=Release -DCMAKE_LIBRARY_OUTPUT_DIRECTORY_RELEASE=/proj/build/lib.linux-x86_64-3.8/openpose -DCMAKE_ARCHIVE_OUTPUT_DIRECTORY_RELEASE=build/temp.linux-x86_64-3.8 -DPYTHON_EXECUTABLE=/usr/bin/python3 -DBUILD_PYTHON=ON'',
      Subprocess_call
        [''cmake'', ''/proj'', ''-DCMAKE_BUILD_TYPE=Release'',
         ''-DCMAKE_LIBRARY_OUTPUT_DIRECTORY_RELEASE=/proj/build/lib.linux-x86_64-3.8/openpose'',
         ''-DCMAKE_ARCHIVE_OUTPUT_DIRECTORY_RELEASE=build/temp.linux-x86_64-3.8'',
         ''-DPYTHON_EXECUTABLE=/usr/bin/python3'', ''-DBUILD_PYTHON=ON'']
        (Some ''build/temp.linux-x86_64-3.8''),
      Log_info ''cmake --build . --config Release'',
      Subprocess_call [''cmake'', ''--build'', ''.'', ''--config'', ''Release'']
        (Some ''build/temp.linux-x86_64-3.8'')]"
  by code_simp

text \<open>
  C1. Whatever the \<open>debug\<close> flag of the command is set to: the configure command has
  \<open>-DCMAKE_BUILD_TYPE=Release\<close> as its first computed argument and the build command starts
  with \<open>cmake --build . --config Release\<close>; \<open>build_extensions\<close> does the same as with the flag
  left as it was; every event that \<open>build_extensions\<close> adds to the trace is the log line or
  the process of the availability check, the \<open>os.makedirs\<close> of the scratch directory, or the
  log line or the process of that configure command or of that build command, for one of
  the extensions; and in a build that is not a dry run and where every step passes, the
  trace is the availability check followed, for each extension in order, by the scratch
  directory, the configure command and the build command, logged and run.
\<close>

theorem release_profile_for_every_debug_flag:
  "config_cmd h (self\<lparr>debug := b\<rparr>) ext ! 2 = ''-DCMAKE_BUILD_TYPE=Release''
   \<and> take 5 (build_cmd (self\<lparr>debug := b\<rparr>)) = [''cmake'', ''--build'', ''.'', ''--config'', ''Release'']
   \<and> build_extensions h (self\<lparr>debug := b\<rparr>) tr = build_extensions h self tr
   \<and> set (fst (build_extensions h (self\<lparr>debug := b\<rparr>) tr))
        \<subseteq> set tr \<union> {Log_info ''cmake --version'', Subprocess_call [''cmake'', ''--version''] None}
            \<union> (\<Union>ext \<in> set (extensions self). set (build_events h (self\<lparr>debug := b\<rparr>) ext))
   \<and> ((\<forall>t c w. subprocess_call h t c w = Exit_code 0)
        \<and> (\<forall>t. os_makedirs h t (build_temp self) True = None) \<and> \<not> dry_run self \<longrightarrow>
      fst (build_extensions h (self\<lparr>debug := b\<rparr>) tr)
        = tr @ [Log_info ''cmake --version'', Subprocess_call [''cmake'', ''--version''] None]
             @ concat (map (build_events h (self\<lparr>debug := b\<rparr>)) (extensions self)))"
proof (intro conjI impI)
  show "config_cmd h (self\<lparr>debug := b\<rparr>) ext ! 2 = ''-DCMAKE_BUILD_TYPE=Release''"
    by (simp add: config_cmd_def cmake_args_def cfg_def Let_def)
  show "take 5 (build_cmd (self\<lparr>debug := b\<rparr>)) = [''cmake'', ''--build'', ''.'', ''--config'', ''Release'']"
    by (simp add: build_cmd_def cfg_def)
  show "build_extensions h (self\<lparr>debug := b\<rparr>) tr = build_extensions h self tr"
    by (simp add: build_extensions_def build_loop_debug cong: sum.case_cong)
  show "set (fst (build_extensions h (self\<lparr>debug := b\<rparr>) tr))
        \<subseteq> set tr \<union> {Log_info ''cmake --version'', Subprocess_call [''cmake'', ''--version''] None}
            \<union> (\<Union>ext \<in> set (extensions self). set (build_events h (self\<lparr>debug := b\<rparr>) ext))"
    using set_build_extensions [of h "self\<lparr>debug := b\<rparr>" tr] by simp
next
  assume a: "(\<forall>t c w. subprocess_call h t c w = Exit_code 0)
        \<and> (\<forall>t. os_makedirs h t (build_temp self) True = None) \<and> \<not> dry_run self"
  have "build_extensions h (self\<lparr>debug := b\<rparr>) tr =
           (tr @ [Log_info ''cmake --version'', Subprocess_call [''cmake'', ''--version''] None]
               @ concat (map (build_events h (self\<lparr>debug := b\<rparr>)) (extensions (self\<lparr>debug := b\<rparr>))),
            Inr ())"
    using a by (intro build_extensions_all_pass) simp_all
  then show "fst (build_extensions h (self\<lparr>debug := b\<rparr>) tr)
        = tr @ [Log_info ''cmake --version'', Subprocess_call [''cmake'', ''--version''] None]
             @ concat (map (build_events h (self\<lparr>debug := b\<rparr>)) (extensions self))"
    by simp
qed

theorem release_profile_for_every_debug_flag_witness:
  "(\<forall>t c w. subprocess_call linux_host t c w = Exit_code 0)
   \<and> (\<forall>t. os_makedirs linux_host t (build_temp (build_cmd_obj linux_host)) True = None)
   \<and> \<not> dry_run (build_cmd_obj linux_host)
   \<and> fst (build_extensions linux_host ((build_cmd_obj linux_host)\<lparr>debug := True\<rparr>) [])
       = [Log_info ''cmake --version'',
          Subprocess_call [''cmake'', ''--version''] None,
          Makedirs ''build/temp.linux-x86_64-3.8'' True,
          Log_info ''cmake /proj -DCMAKE_BUILD_TYPE=Release -DCMAKE_LIBRARY_OUTPUT_DIRECTORY_RELEASE=/proj/build/lib.linux-x86_64-3.8/openpose -DCMAKE_ARCHIVE_OUTPUT_DIRECTORY_RELEASE=build/temp.linux-x86_64-3.8 -DPYTHON_EXECUTABLE=/usr/bin/python3 -DBUILD_PYTHON=ON'',
          Subprocess_call
            [''cmake'', ''/proj'', ''-DCMAKE_BUILD_TYPE=Release'',
             ''-DCMAKE_LIBRARY_OUTPUT_DIRECTORY_RELEASE=/proj/build/lib.linux-x86_64-3.8/openpose'',
             ''-DCMAKE_ARCHIVE_OUTPUT_DIRECTORY_RELEASE=build/temp.linux-x86_64-3.8'',
             ''-DPYTHON_EXECUTABLE=/usr/bin/python3'', ''-DBUILD_PYTHON=ON'']
            (Some ''build/temp.linux-x86_64-3.8''),
          Log_info ''cmake --build . --config Release'',
          Subprocess_call [''cmake'', ''--build'', ''.'', ''--config'', ''Release'']
            (Some ''build/temp.linux-x86_64-3.8'')]"
proof -
  let ?obj = "build_cmd_obj linux_host"
  have a: "\<forall>t c w. subprocess_call linux_host t c w = Exit_code 0"
    by (simp add: linux_host_def)
  have m: "\<forall>t. os_makedirs linux_host t (build_temp ?obj) True = None"
    by (simp add: linux_host_def)
  have d: "\<not> dry_run ?obj"
    by (simp add: build_cmd_obj_def)
  have "fst (build_extensions linux_host (?obj\<lparr>debug := True\<rparr>) [])
          = [] @ [Log_info ''cmake --version'', Subprocess_call [''cmake'', ''--version''] None]
               @ concat (map (build_events linux_host (?obj\<lparr>debug := True\<rparr>)) (extensions ?obj))"
    using release_profile_for_every_debug_flag
            [where h = linux_host and self = ?obj and b = True and tr = "[]"] a m d by blast
  then show ?thesis
    using a m d by (simp only: sample_debug_events) simp
qed

section \<open>Dry runs\<close>

lemma calls_spawn_dry: "calls (fst (spawn h cmd True cwd tr)) = calls tr"
  by (simp add: spawn_dry calls_def)

lemma calls_spawn_run:
  "calls (fst (spawn h cmd False cwd tr)) = calls tr @ [Subprocess_call cmd cwd]"
  by (simp add: spawn_def calls_def Let_def split: call_outcome.split)

lemma build_extension_dry:
  "dry_run self \<Longrightarrow>
   build_extension h self ext tr =
     (case os_makedirs h tr (build_temp self) True of
        Some msg \<Rightarrow> (tr @ [Makedirs (build_temp self) True], Inl (OSError msg))
      | None \<Rightarrow>
          (tr @ [Makedirs (build_temp self) True,
                 Log_info (py_join '' '' (config_cmd h self ext)),
                 Log_info (py_join '' '' (build_cmd self))],
           Inr ()))"
  by (simp add: build_extension_def spawn_dry split: option.split)

lemma calls_build_extension_dry:
  "dry_run self \<Longrightarrow> calls (fst (build_extension h self ext tr)) = calls tr"
  by (simp add: build_extension_dry calls_def split: option.split)

lemma calls_build_loop_dry:
  "dry_run self \<Longrightarrow> calls (fst (build_loop h self exts tr)) = calls tr"
proof (induction exts arbitrary: tr)
  case Nil
  then show ?case by simp
next
  case (Cons ext exts)
  obtain tr1 r where step: "build_extension h self ext tr = (tr1, r)"
    by (cases "build_extension h self ext tr")
  have tr1: "calls tr1 = calls tr"
    using calls_build_extension_dry [OF Cons.prems, of h ext tr] step by simp
  show ?case
  proof (cases r)
    case (Inl e)
    with step tr1 show ?thesis by simp
  next
    case (Inr u)
    with step tr1 Cons.IH [OF Cons.prems, of tr1] show ?thesis by simp
  qed
qed

lemma calls_build_extensions_dry:
  assumes "dry_run self"
  shows "calls (fst (build_extensions h self tr))
           = calls tr @ [Subprocess_call [''cmake'', ''--version''] None]"
proof (cases "subprocess_call h (tr @ [Log_info ''cmake --version'']) [''cmake'', ''--version''] None
                = Exit_code 0")
  case True
  show ?thesis
    by (simp add: availability_check_passes [OF True] calls_build_loop_dry [OF assms])
       (simp add: calls_def)
next
  case False
  show ?thesis
    by (simp add: availability_check_fails [OF False] calls_def)
qed

lemma dry_run_obj_dry: "dry_run dry_run_obj"
  by (simp add: dry_run_obj_def)

lemma spawn_prefix: "prefix tr (fst (spawn h cmd dry cwd tr))"
  by (simp add: spawn_def Let_def split: call_outcome.split)

lemma build_extension_prefix: "prefix tr (fst (build_extension h self ext tr))"
proof (cases "os_makedirs h tr (build_temp self) True")
  case (Some msg)
  then show ?thesis by (simp add: build_extension_def)
next
  case None
  let ?bt = "build_temp self"
  let ?tr1 = "tr @ [Makedirs ?bt True]"
  obtain tr2 r where c: "spawn h (config_cmd h self ext) (dry_run self) (Some ?bt) ?tr1 = (tr2, r)"
    by (cases "spawn h (config_cmd h self ext) (dry_run self) (Some ?bt) ?tr1")
  have p2: "prefix ?tr1 tr2"
    using spawn_prefix [of ?tr1 h "config_cmd h self ext" "dry_run self" "Some ?bt"] c by simp
  then have p1: "prefix tr tr2"
    using append_prefixD by blast
  show ?thesis
  proof (cases r)
    case (Inl e)
    with None c p1 show ?thesis by (simp add: build_extension_def)
  next
    case (Inr u)
    have "prefix tr2 (fst (spawn h (build_cmd self) (dry_run self) (Some ?bt) tr2))"
      by (rule spawn_prefix)
    with p1 have "prefix tr (fst (spawn h (build_cmd self) (dry_run self) (Some ?bt) tr2))"
      using prefix_order.trans by blast
    with None c Inr show ?thesis by (simp add: build_extension_def)
  qed
qed

lemma build_loop_prefix: "prefix tr (fst (build_loop h self exts tr))"
proof (induction exts arbitrary: tr)
  case Nil
  then show ?case by simp
next
  case (Cons ext exts)
  obtain tr1 r where step: "build_extension h self ext tr = (tr1, r)"
    by (cases "build_extension h self ext tr")
  have p: "prefix tr tr1"
    using build_extension_prefix [of tr h self ext] step by simp
  show ?case
  proof (cases r)
    case (Inl e)
    with step p show ?thesis by simp
  next
    case (Inr u)
    have "prefix tr1 (fst (build_loop h self exts tr1))" by (rule Cons.IH)
    with p have "prefix tr (fst (build_loop h self exts tr1))"
      using prefix_order.trans by blast
    with step Inr show ?thesis by simp
  qed
qed

lemma dry_run_obj_extensions:
  "extensions dry_run_obj = hd (ext_modules linux_host) # []"
  by (simp add: dry_run_obj_def build_cmd_obj_def ext_modules_def)

text \<open>
  C9, as the code has it. A \<open>spawn\<close> that is given \<open>dry_run=True\<close> logs the command line
  and returns without a call of \<open>subprocess.call\<close>. In dry-run mode the loop over the
  extensions (the configure and build steps) adds no call of \<open>subprocess.call\<close> to the
  trace, and the only such call that \<open>build_extensions\<close> adds is the availability check
  \<open>cmake --version\<close>, whose \<open>spawn\<close> is not given the flag.
\<close>

theorem dry_run_runs_only_the_availability_check:
  "spawn h cmd True cwd tr = (tr @ [Log_info (py_join '' '' cmd)], Inr ())
   \<and> (dry_run self \<longrightarrow> calls (fst (build_loop h self exts tr)) = calls tr)
   \<and> (dry_run self \<longrightarrow>
        calls (fst (build_extensions h self tr))
          = calls tr @ [Subprocess_call [''cmake'', ''--version''] None])"
  by (simp add: spawn_dry calls_build_loop_dry calls_build_extensions_dry)

theorem dry_run_runs_only_the_availability_check_witness:
  "dry_run dry_run_obj
   \<and> spawn linux_host [''cmake'', ''--build'', ''.''] True None []
       = ([Log_info (py_join '' '' [''cmake'', ''--build'', ''.''])], Inr ())
   \<and> calls (fst (build_loop linux_host dry_run_obj (extensions dry_run_obj) [])) = []
   \<and> calls (fst (build_extensions linux_host dry_run_obj []))
       = [Subprocess_call [''cmake'', ''--version''] None]"
  using dry_run_runs_only_the_availability_check
          [of linux_host "[''cmake'', ''--build'', ''.'']" None "[]" dry_run_obj "extensions dry_run_obj"]
        dry_run_obj_dry
  by (simp add: calls_def)

text \<open>
  C9, as the claim states it, fails: in dry-run mode one of the spawns of the adapter,
  the availability check, does execute a process.
\<close>

theorem dry_run_executes_cmake_version:
  "dry_run dry_run_obj
   \<and> Subprocess_call [''cmake'', ''--version''] None
        \<in> set (fst (build_extensions linux_host dry_run_obj []))"
proof -
  have "calls (fst (build_extensions linux_host dry_run_obj []))
          = calls [] @ [Subprocess_call [''cmake'', ''--version''] None]"
    by (rule calls_build_extensions_dry [OF dry_run_obj_dry])
  then have "Subprocess_call [''cmake'', ''--version''] None
               \<in> set (calls (fst (build_extensions linux_host dry_run_obj [])))"
    by simp
  then show ?thesis
    by (simp add: calls_def dry_run_obj_dry)
qed

text \<open>
  C10. In dry-run mode, when the availability check exits with code 0 and there is an
  extension to build, the trace of \<open>build_extensions\<close> starts with the log line and the
  real \<open>subprocess.call\<close> of \<open>cmake --version\<close>, followed by \<open>os.makedirs\<close> on the scratch
  directory with \<open>exist_ok=True\<close> and, when that succeeds, by the two log lines of the
  configure and build commands of the first extension (which are not executed).
\<close>

theorem dry_run_still_checks_cmake_and_makes_build_temp:
  assumes dry: "dry_run self"
    and version: "subprocess_call h (tr @ [Log_info ''cmake --version''])
                    [''cmake'', ''--version''] None = Exit_code 0"
    and exts: "extensions self = ext # exts"
    and mk: "os_makedirs h
               (tr @ [Log_info ''cmake --version'', Subprocess_call [''cmake'', ''--version''] None])
               (build_temp self) True = None"
  shows "prefix
           (tr @ [Log_info ''cmake --version'',
                  Subprocess_call [''cmake'', ''--version''] None,
                  Makedirs (build_temp self) True,
                  Log_info (py_join '' '' (config_cmd h self ext)),
                  Log_info (py_join '' '' (build_cmd self))])
           (fst (build_extensions h self tr))"
proof -
  let ?tr1 = "tr @ [Log_info ''cmake --version'', Subprocess_call [''cmake'', ''--version''] None]"
  let ?tr2 = "?tr1 @ [Makedirs (build_temp self) True,
                      Log_info (py_join '' '' (config_cmd h self ext)),
                      Log_info (py_join '' '' (build_cmd self))]"
  have one: "build_extension h self ext ?tr1 = (?tr2, Inr ())"
    using mk by (simp add: build_extension_dry [OF dry])
  have "build_extensions h self tr = build_loop h self (ext # exts) ?tr1"
    using availability_check_passes [OF version, of self] exts by simp
  also have "\<dots> = build_loop h self exts ?tr2"
    using one by simp
  finally have "fst (build_extensions h self tr) = fst (build_loop h self exts ?tr2)"
    by simp
  moreover have "prefix ?tr2 (fst (build_loop h self exts ?tr2))"
    by (rule build_loop_prefix)
  ultimately show ?thesis by simp
qed

theorem dry_run_still_checks_cmake_and_makes_build_temp_witness:
  "dry_run dry_run_obj
   \<and> subprocess_call linux_host ([] @ [Log_info ''cmake --version''])
        [''cmake'', ''--version''] None = Exit_code 0
   \<and> extensions dry_run_obj = hd (ext_modules linux_host) # []
   \<and> os_makedirs linux_host
        ([] @ [Log_info ''cmake --version'', Subprocess_call [''cmake'', ''--version''] None])
        (build_temp dry_run_obj) True = None
   \<and> prefix
        ([] @ [Log_info ''cmake --version'',
               Subprocess_call [''cmake'', ''--version''] None,
               Makedirs (build_temp dry_run_obj) True,
               Log_info (py_join '' '' (config_cmd linux_host dry_run_obj (hd (ext_modules linux_host)))),
               Log_info (py_join '' '' (build_cmd dry_run_obj))])
        (fst (build_extensions linux_host dry_run_obj []))"
proof -
  have v: "subprocess_call linux_host ([] @ [Log_info ''cmake --version''])
             [''cmake'', ''--version''] None = Exit_code 0"
    by (simp add: linux_host_def)
  have m: "os_makedirs linux_host
             ([] @ [Log_info ''cmake --version'', Subprocess_call [''cmake'', ''--version''] None])
             (build_temp dry_run_obj) True = None"
    by (simp add: linux_host_def)
  show ?thesis
    using dry_run_obj_dry v dry_run_obj_extensions m
      dry_run_still_checks_cmake_and_makes_build_temp [OF dry_run_obj_dry v dry_run_obj_extensions m]
    by blast
qed

section \<open>copy_to\<close>

lemma takeWhile_until: "\<forall>c \<in> set xs. P c \<Longrightarrow> \<not> P y \<Longrightarrow> takeWhile P (xs @ y # ys) = xs"
  by (induction xs) auto

lemma dropWhile_until: "\<forall>c \<in> set xs. P c \<Longrightarrow> \<not> P y \<Longrightarrow> dropWhile P (xs @ y # ys) = y # ys"
  by (induction xs) auto

lemma basename_no_sep: "sep \<notin> set (posix_basename p)"
proof -
  have "\<forall>c \<in> set (takeWhile (\<lambda>c. c \<noteq> sep) (rev p)). c \<noteq> sep"
    using set_takeWhileD by fastforce
  then show ?thesis by (auto simp: posix_basename_def)
qed

lemma not_isabs_no_sep: "sep \<notin> set b \<Longrightarrow> \<not> posix_isabs b"
  by (cases b) (auto simp: posix_isabs_def)

lemma join_no_sep:
  "sep \<notin> set b \<Longrightarrow>
   posix_join d b = (if d = [] \<or> last d = sep then d @ b else d @ [sep] @ b)"
  by (simp add: posix_join_def not_isabs_no_sep)

lemma basename_join:
  assumes "sep \<notin> set b"
  shows "posix_basename (posix_join d b) = b"
proof -
  have all: "\<forall>c \<in> set (rev b). c \<noteq> sep"
    using assms by auto
  show ?thesis
  proof (cases "d = [] \<or> last d = sep")
    case True
    have e: "takeWhile (\<lambda>c. c \<noteq> sep) (rev d) = []"
      using True by (cases d rule: rev_cases) auto
    have "takeWhile (\<lambda>c. c \<noteq> sep) (rev b @ rev d)
            = rev b @ takeWhile (\<lambda>c. c \<noteq> sep) (rev d)"
      using all by (intro takeWhile_append2) auto
    with e have "takeWhile (\<lambda>c. c \<noteq> sep) (rev (d @ b)) = rev b"
      by simp
    moreover have "posix_join d b = d @ b"
      using True by (simp add: join_no_sep [OF assms])
    ultimately show ?thesis
      by (simp add: posix_basename_def)
  next
    case False
    have "takeWhile (\<lambda>c. c \<noteq> sep) (rev b @ sep # rev d) = rev b"
      using all by (intro takeWhile_until) auto
    moreover have "posix_join d b = d @ [sep] @ b"
      using False by (simp add: join_no_sep [OF assms])
    ultimately show ?thesis
      by (simp add: posix_basename_def)
  qed
qed

lemma dirname_join:
  assumes "sep \<notin> set b"
  shows "posix_dirname (posix_join d b)
           = (if d = replicate (length d) sep then d else rstrip_sep d)"
proof -
  have all: "\<forall>c \<in> set (rev b). c \<noteq> sep"
    using assms by auto
  show ?thesis
  proof (cases "d = [] \<or> last d = sep")
    case True
    have e: "dropWhile (\<lambda>c. c \<noteq> sep) (rev d) = rev d"
      using True by (cases d rule: rev_cases) auto
    have "dropWhile (\<lambda>c. c \<noteq> sep) (rev b @ rev d) = dropWhile (\<lambda>c. c \<noteq> sep) (rev d)"
      using all by (intro dropWhile_append2) auto
    with e have "dropWhile (\<lambda>c. c \<noteq> sep) (rev (d @ b)) = rev d"
      by simp
    moreover have "posix_join d b = d @ b"
      using True by (simp add: join_no_sep [OF assms])
    ultimately have "rev (dropWhile (\<lambda>c. c \<noteq> sep) (rev (posix_join d b))) = d"
      by simp
    then show ?thesis
      by (auto simp: posix_dirname_def)
  next
    case False
    then have d: "d \<noteq> []" "last d \<noteq> sep" by auto
    have "dropWhile (\<lambda>c. c \<noteq> sep) (rev b @ sep # rev d) = sep # rev d"
      using all by (intro dropWhile_until) auto
    moreover have "posix_join d b = d @ [sep] @ b"
      using False by (simp add: join_no_sep [OF assms])
    ultimately have head: "rev (dropWhile (\<lambda>c. c \<noteq> sep) (rev (posix_join d b))) = d @ [sep]"
      by simp
    have notall: "d \<noteq> replicate (length d) sep"
    proof
      assume "d = replicate (length d) sep"
      then have "last d = last (replicate (length d) sep)" by simp
      with d show False by simp
    qed
    have notall2: "d @ [sep] \<noteq> replicate (length (d @ [sep])) sep"
    proof
      assume "d @ [sep] = replicate (length (d @ [sep])) sep"
      then have "d @ [sep] = replicate (length d) sep @ [sep]"
        by (simp add: replicate_append_same)
      with notall show False by simp
    qed
    have "rstrip_sep (d @ [sep]) = rstrip_sep d"
      by (simp add: rstrip_sep_def)
    with head notall notall2 show ?thesis
      by (simp add: posix_dirname_def)
  qed
qed

lemma copy_to_dir:
  "os_path_isdir fs tr p \<Longrightarrow>
   copy_to fs p d tr =
     (tr @ [Copy_tree p (posix_join d (posix_basename p))],
      case copy_tree fs tr p (posix_join d (posix_basename p)) of
        Inl e \<Rightarrow> Inl e
      | Inr copied \<Rightarrow> Inr (Out_list copied, 1))"
  by (simp add: copy_to_def split: sum.split)

lemma copy_to_file:
  "\<not> os_path_isdir fs tr p \<Longrightarrow> os_path_isfile fs tr p \<Longrightarrow>
   copy_to fs p d tr =
     (tr @ [Copy_file p d],
      case copy_file fs tr p d of
        Inl e \<Rightarrow> Inl e
      | Inr (dst_name, copied) \<Rightarrow> Inr (Out_str dst_name, copied))"
  by (simp add: copy_to_def split: sum.split prod.split)

lemma copy_to_other:
  "\<not> os_path_isdir fs tr p \<Longrightarrow> \<not> os_path_isfile fs tr p \<Longrightarrow>
   copy_to fs p d tr =
     (tr, Inl (DistutilsFileError
        (''can''  @ [squote] @ ''t copy '' @ [squote] @ p @ [squote]
           @ '': doesn'' @ [squote] @ ''t exist or not a regular file or a directory'')))"
  by (simp add: copy_to_def)

lemma basename_models: "posix_basename ''models'' = ''models''"
  by code_simp

lemma join_dst_openpose_models: "posix_join ''/dst/openpose'' ''models'' = ''/dst/openpose/models''"
  by code_simp

lemma posix_normpath_alt:
  "posix_normpath path =
     (if path = [] then ''.''
      else (let p = replicate (initial_slashes path) sep
                      @ py_join ''/'' (norm_comps (initial_slashes path \<noteq> 0) [] (split_sep path))
            in if p = [] then ''.'' else p))"
  by (simp add: posix_normpath_def initial_slashes_def Let_def)

lemma split_sep_not_Nil: "split_sep xs \<noteq> []"
  by (induction xs) (auto split: list.split)

lemma split_sep_no_sep: "sep \<notin> set b \<Longrightarrow> split_sep b = [b]"
  by (induction b) auto

lemma split_sep_append:
  "sep \<notin> set b \<Longrightarrow> split_sep (xs @ sep # b) = split_sep xs @ [b]"
proof (induction xs)
  case Nil
  then show ?case by (simp add: split_sep_no_sep)
next
  case (Cons x xs)
  then show ?case
    by (cases "split_sep xs") (auto simp: split_sep_not_Nil)
qed

lemma norm_comps_snoc_empty:
  "norm_comps i acc (xs @ [[]]) = norm_comps i acc xs"
  by (induction xs arbitrary: acc) auto

lemma norm_comps_snoc_proper:
  "proper_name b \<Longrightarrow> norm_comps i acc (xs @ [b]) = norm_comps i acc xs @ [b]"
  by (induction xs arbitrary: acc) (auto simp: proper_name_def)

lemma py_join_snoc:
  "py_join s (xs @ [b]) = (if xs = [] then b else py_join s xs @ s @ b)"
  by (induction s xs rule: py_join.induct) auto


lemma split_sep_comp_no_sep: "c \<in> set (split_sep xs) \<Longrightarrow> sep \<notin> set c"
proof (induction xs arbitrary: c)
  case Nil
  then show ?case by simp
next
  case (Cons x xs)
  then show ?case
    by (cases "split_sep xs") (auto simp: split_sep_not_Nil split: if_splits)
qed

lemma norm_comps_subset:
  "set (norm_comps i acc xs) \<subseteq> set acc \<union> {c \<in> set xs. c \<noteq> [] \<and> c \<noteq> ''.''}"
proof (induction xs arbitrary: acc)
  case Nil
  then show ?case by simp
next
  case (Cons x xs)
  have b: "set (butlast acc) \<subseteq> set acc"
    by (auto dest: in_set_butlastD)
  show ?case
    using Cons.IH [of acc] Cons.IH [of "acc @ [x]"] Cons.IH [of "butlast acc"] b
    by (auto split: if_splits)
qed

lemma comps_of_path:
  assumes "c \<in> set (norm_comps i [] (split_sep d))"
  shows "c \<noteq> []" and "c \<noteq> ''.''" and "sep \<notin> set c"
proof -
  from assms norm_comps_subset [of i "[]" "split_sep d"]
  have m: "c \<in> set (split_sep d)" and ne: "c \<noteq> []" and nd: "c \<noteq> ''.''"
    by auto
  show "c \<noteq> []" by (rule ne)
  show "c \<noteq> ''.''" by (rule nd)
  show "sep \<notin> set c" by (rule split_sep_comp_no_sep [OF m])
qed

lemma py_join_Nil_iff:
  "\<forall>c \<in> set cs. c \<noteq> [] \<Longrightarrow> py_join s cs = [] \<longleftrightarrow> cs = []"
  by (induction s cs rule: py_join.induct) auto

lemma last_py_join:
  "cs \<noteq> [] \<Longrightarrow> \<forall>c \<in> set cs. c \<noteq> [] \<Longrightarrow> last (py_join s cs) = last (last cs)"
  by (induction s cs rule: py_join.induct) (auto simp: py_join_Nil_iff)

lemma py_join_not_dot:
  "cs \<noteq> [] \<Longrightarrow> \<forall>c \<in> set cs. c \<noteq> [] \<and> c \<noteq> ''.'' \<Longrightarrow> py_join ''/'' cs \<noteq> ''.''"
proof (cases cs)
  case Nil
  assume "cs \<noteq> []"
  with Nil show ?thesis by simp
next
  case (Cons x xs)
  assume a: "\<forall>c \<in> set cs. c \<noteq> [] \<and> c \<noteq> ''.''"
  show ?thesis
  proof (cases xs)
    case Nil
    with Cons a show ?thesis by simp
  next
    case (Cons y ys)
    with \<open>cs = x # xs\<close> a have "x \<noteq> []" by simp
    then obtain c w where "x = c # w" by (cases x) auto
    with Cons \<open>cs = x # xs\<close> show ?thesis by simp
  qed
qed

lemma proper_name_no_sep: "proper_name b \<Longrightarrow> sep \<notin> set b"
  by (simp add: proper_name_def)

lemma comps_join:
  assumes "proper_name b"
  shows "norm_comps i [] (split_sep (posix_join d b)) = norm_comps i [] (split_sep d) @ [b]"
proof -
  have ns: "sep \<notin> set b" using assms by (rule proper_name_no_sep)
  show ?thesis
  proof (cases "d = []")
    case True
    then show ?thesis
      using assms ns by (simp add: join_no_sep split_sep_no_sep proper_name_def)
  next
    case False
    show ?thesis
    proof (cases "last d = sep")
      case True
      with False obtain d' where d: "d = d' @ [sep]"
        by (cases d rule: rev_cases) auto
      have j: "posix_join d b = d' @ sep # b"
        using d ns by (simp add: join_no_sep)
      have "split_sep d = split_sep d' @ [[]]"
        using split_sep_append [of "[]" d'] d by simp
      then have "norm_comps i [] (split_sep d) = norm_comps i [] (split_sep d')"
        by (simp add: norm_comps_snoc_empty)
      moreover have "norm_comps i [] (split_sep (d' @ sep # b)) = norm_comps i [] (split_sep d') @ [b]"
        by (simp add: split_sep_append [OF ns] norm_comps_snoc_proper [OF assms])
      ultimately show ?thesis by (simp add: j)
    next
      case nl: False
      have j: "posix_join d b = d @ sep # b"
        using False nl ns by (simp add: join_no_sep)
      show ?thesis
        by (simp add: j split_sep_append [OF ns] norm_comps_snoc_proper [OF assms])
    qed
  qed
qed

lemma initial_slashes_join:
  assumes "proper_name b"
  shows "initial_slashes (posix_join d b) = initial_slashes d"
proof -
  have ns: "sep \<notin> set b" using assms by (rule proper_name_no_sep)
  from assms obtain c w where b: "b = c # w" and c: "c \<noteq> sep"
    by (cases b) (auto simp: proper_name_def)
  show ?thesis
  proof (cases d)
    case Nil
    then show ?thesis
      using ns b c by (simp add: join_no_sep initial_slashes_def posix_isabs_def)
  next
    case d1: (Cons c1 r1)
    show ?thesis
    proof (cases r1)
      case Nil
      with d1 b c show ?thesis
        using ns by (auto simp: join_no_sep initial_slashes_def posix_isabs_def sep_def)
    next
      case d2: (Cons c2 r2)
      show ?thesis
      proof (cases r2)
        case Nil
        with d1 d2 b c show ?thesis
          using ns by (auto simp: join_no_sep initial_slashes_def posix_isabs_def sep_def)
      next
        case (Cons c3 r3)
        with d1 d2 show ?thesis
          using ns by (auto simp: join_no_sep initial_slashes_def posix_isabs_def)
      qed
    qed
  qed
qed


lemma normpath_join:
  assumes "proper_name b"
  shows "posix_normpath (posix_join d b)
           = (if posix_normpath d = ''.'' then b else posix_join (posix_normpath d) b)"
proof -
  define i where "i = initial_slashes d"
  define cs where "cs = norm_comps (initial_slashes d \<noteq> 0) [] (split_sep d)"
  define p0 where "p0 = replicate i sep @ py_join ''/'' cs"
  have ns: "sep \<notin> set b" using assms by (rule proper_name_no_sep)
  have bne: "b \<noteq> []" using assms by (simp add: proper_name_def)
  have cne: "\<forall>c \<in> set cs. c \<noteq> []"
    unfolding cs_def using comps_of_path(1) by blast
  have cnd: "\<forall>c \<in> set cs. c \<noteq> [] \<and> c \<noteq> ''.''"
    unfolding cs_def using comps_of_path(1,2) by blast
  have csep: "\<forall>c \<in> set cs. sep \<notin> set c"
    unfolding cs_def using comps_of_path(3) by blast
  have jne: "posix_join d b \<noteq> []"
    using bne ns by (simp add: join_no_sep)
  have lhs: "posix_normpath (posix_join d b)
               = replicate i sep @ (if cs = [] then b else py_join ''/'' cs @ ''/'' @ b)"
    unfolding i_def cs_def using jne bne
    by (simp add: posix_normpath_alt initial_slashes_join [OF assms] comps_join [OF assms]
          py_join_snoc Let_def)
  have nd: "posix_normpath d = (if p0 = [] then ''.'' else p0)"
  proof (cases "d = []")
    case True
    then show ?thesis
      unfolding p0_def i_def cs_def
      by (simp add: posix_normpath_alt initial_slashes_def posix_isabs_def)
  next
    case False
    then show ?thesis
      unfolding p0_def i_def cs_def
      by (cases "initial_slashes d = 0") (simp_all add: posix_normpath_alt Let_def)
  qed
  show ?thesis
  proof (cases "p0 = []")
    case True
    then have i0: "i = 0" and "py_join ''/'' cs = []" by (simp_all add: p0_def)
    then have "cs = []" using py_join_Nil_iff [OF cne] by simp
    with i0 True nd lhs show ?thesis by simp
  next
    case False
    have notdot: "p0 \<noteq> ''.''"
    proof (cases "i = 0")
      case True
      with False have "cs \<noteq> []" by (auto simp: p0_def)
      then have "py_join ''/'' cs \<noteq> ''.''" using cnd by (rule py_join_not_dot)
      with True show ?thesis by (simp add: p0_def)
    next
      case False
      then obtain k where "i = Suc k" by (cases i) auto
      then show ?thesis by (simp add: p0_def sep_def)
    qed
    have nd': "posix_normpath d = p0" using nd False by simp
    show ?thesis
    proof (cases "cs = []")
      case True
      with False have ipos: "i \<noteq> 0" by (auto simp: p0_def)
      then have "last (replicate i sep) = sep" by (cases i) auto
      with True ipos have "posix_join p0 b = p0 @ b"
        using ns by (simp add: join_no_sep p0_def)
      with True lhs nd' notdot show ?thesis by (simp add: p0_def)
    next
      case cs: False
      have "last (py_join ''/'' cs) = last (last cs)"
        using cs cne by (rule last_py_join)
      moreover have m: "last cs \<in> set cs" using cs by simp
      have "last cs \<noteq> []" and "sep \<notin> set (last cs)"
        using m cne csep by blast+
      then have "last (last cs) \<noteq> sep"
        using last_in_set by metis
      moreover have pj: "py_join ''/'' cs \<noteq> []"
        using cs py_join_Nil_iff [OF cne] by simp
      ultimately have "last p0 \<noteq> sep" by (simp add: p0_def)
      moreover have "p0 \<noteq> []" by (rule False)
      ultimately have "posix_join p0 b = p0 @ [sep] @ b"
        using ns by (simp add: join_no_sep)
      with cs lhs nd' notdot show ?thesis by (simp add: p0_def sep_def)
    qed
  qed
qed

lemma proper_basename:
  "posix_basename p \<noteq> [] \<Longrightarrow> posix_basename p \<noteq> ''.'' \<Longrightarrow> posix_basename p \<noteq> ''..'' \<Longrightarrow>
   proper_name (posix_basename p)"
  by (simp add: proper_name_def basename_no_sep)

lemma normpath_dst_openpose: "posix_normpath ''/dst/openpose'' = ''/dst/openpose''"
  by code_simp

text \<open>
  C6, as the code has it. \<open>copy_to(source_path, target_dir)\<close> has three cases. A directory
  is given to \<open>copy_tree\<close> with the destination \<open>join(target_dir, basename(source_path))\<close>, and
  the result is the list \<open>copy_tree\<close> returns, paired with 1. When that basename is a proper
  name (not empty, not \<open>.\<close> and not \<open>..\<close>), the destination is nested one level under the
  target directory: its basename is the basename of the source, its dirname is the target
  directory, and its normal form is the normal form of the target directory joined with
  that name. A path that is not a directory and is a regular file is given to \<open>copy_file\<close>
  with the target directory. Any other path raises \<open>DistutilsFileError\<close> with a message
  that contains the path, and nothing is copied.
\<close>

theorem copy_to_three_cases:
  "(os_path_isdir fs tr p \<longrightarrow>
      copy_to fs p d tr =
        (tr @ [Copy_tree p (posix_join d (posix_basename p))],
         case copy_tree fs tr p (posix_join d (posix_basename p)) of
           Inl e \<Rightarrow> Inl e
         | Inr copied \<Rightarrow> Inr (Out_list copied, 1)))
   \<and> (posix_basename p \<noteq> [] \<and> posix_basename p \<noteq> ''.'' \<and> posix_basename p \<noteq> ''..'' \<longrightarrow>
        posix_basename (posix_join d (posix_basename p)) = posix_basename p
        \<and> posix_dirname (posix_join d (posix_basename p))
             = (if d = replicate (length d) sep then d else rstrip_sep d)
        \<and> posix_normpath (posix_join d (posix_basename p))
             = (if posix_normpath d = ''.'' then posix_basename p
                else posix_join (posix_normpath d) (posix_basename p)))
   \<and> (\<not> os_path_isdir fs tr p \<and> os_path_isfile fs tr p \<longrightarrow>
      copy_to fs p d tr =
        (tr @ [Copy_file p d],
         case copy_file fs tr p d of
           Inl e \<Rightarrow> Inl e
         | Inr (dst_name, copied) \<Rightarrow> Inr (Out_str dst_name, copied)))
   \<and> (\<not> os_path_isdir fs tr p \<and> \<not> os_path_isfile fs tr p \<longrightarrow>
      (\<exists>m. copy_to fs p d tr = (tr, Inl (DistutilsFileError m)) \<and> sublist p m))"
proof (intro conjI impI)
  assume "os_path_isdir fs tr p"
  then show "copy_to fs p d tr =
        (tr @ [Copy_tree p (posix_join d (posix_basename p))],
         case copy_tree fs tr p (posix_join d (posix_basename p)) of
           Inl e \<Rightarrow> Inl e
         | Inr copied \<Rightarrow> Inr (Out_list copied, 1))"
    by (rule copy_to_dir)
next
  assume "posix_basename p \<noteq> [] \<and> posix_basename p \<noteq> ''.'' \<and> posix_basename p \<noteq> ''..''"
  show "posix_basename (posix_join d (posix_basename p)) = posix_basename p"
    by (rule basename_join [OF basename_no_sep])
next
  assume "posix_basename p \<noteq> [] \<and> posix_basename p \<noteq> ''.'' \<and> posix_basename p \<noteq> ''..''"
  show "posix_dirname (posix_join d (posix_basename p))
          = (if d = replicate (length d) sep then d else rstrip_sep d)"
    by (rule dirname_join [OF basename_no_sep])
next
  assume "posix_basename p \<noteq> [] \<and> posix_basename p \<noteq> ''.'' \<and> posix_basename p \<noteq> ''..''"
  then have "proper_name (posix_basename p)"
    by (simp add: proper_basename)
  then show "posix_normpath (posix_join d (posix_basename p))
             = (if posix_normpath d = ''.'' then posix_basename p
                else posix_join (posix_normpath d) (posix_basename p))"
    by (rule normpath_join)
next
  assume "\<not> os_path_isdir fs tr p \<and> os_path_isfile fs tr p"
  then show "copy_to fs p d tr =
        (tr @ [Copy_file p d],
         case copy_file fs tr p d of
           Inl e \<Rightarrow> Inl e
         | Inr (dst_name, copied) \<Rightarrow> Inr (Out_str dst_name, copied))"
    by (simp add: copy_to_file)
next
  assume a: "\<not> os_path_isdir fs tr p \<and> \<not> os_path_isfile fs tr p"
  let ?m = "''can''  @ [squote] @ ''t copy '' @ [squote] @ p @ [squote]
              @ '': doesn'' @ [squote] @ ''t exist or not a regular file or a directory''"
  have "copy_to fs p d tr = (tr, Inl (DistutilsFileError ?m))"
    using a by (simp add: copy_to_other)
  moreover have "sublist p ?m"
    unfolding sublist_def
    by (rule exI [of _ "''can''  @ [squote] @ ''t copy '' @ [squote]"],
        rule exI [of _ "[squote] @ '': doesn'' @ [squote] @ ''t exist or not a regular file or a directory''"])
       simp
  ultimately show "\<exists>m. copy_to fs p d tr = (tr, Inl (DistutilsFileError m)) \<and> sublist p m"
    by blast
qed

theorem copy_to_three_cases_witness:
  "os_path_isdir sample_fs [] ''models''
   \<and> copy_to sample_fs ''models'' ''/dst/openpose'' []
       = ([Copy_tree ''models'' ''/dst/openpose/models''],
          Inr (Out_list [''/dst/openpose/models/getModels.sh'',
                         ''/dst/openpose/models/pose/coco/pose_deploy_linevec.prototxt''], 1))
   \<and> posix_basename ''models'' = ''models''
   \<and> posix_basename (posix_join ''/dst/openpose'' (posix_basename ''models'')) = ''models''
   \<and> posix_dirname (posix_join ''/dst/openpose'' (posix_basename ''models'')) = ''/dst/openpose''
   \<and> posix_normpath (posix_join ''/dst/openpose'' (posix_basename ''models''))
       = ''/dst/openpose/models''
   \<and> \<not> os_path_isdir sample_fs [] ''LICENSE'' \<and> os_path_isfile sample_fs [] ''LICENSE''
   \<and> copy_to sample_fs ''LICENSE'' ''/dst'' []
       = ([Copy_file ''LICENSE'' ''/dst''], Inr (Out_str ''/dst/LICENSE'', 1))
   \<and> \<not> os_path_isdir sample_fs [] ''nope'' \<and> \<not> os_path_isfile sample_fs [] ''nope''
   \<and> (\<exists>m. copy_to sample_fs ''nope'' ''/dst'' [] = ([], Inl (DistutilsFileError m))
          \<and> sublist ''nope'' m)"
proof -
  note t1 = copy_to_three_cases [of sample_fs "[]" "''models''" "''/dst/openpose''"]
  note t2 = copy_to_three_cases [of sample_fs "[]" "''LICENSE''" "''/dst''"]
  note t3 = copy_to_three_cases [of sample_fs "[]" "''nope''" "''/dst''"]
  have d1: "os_path_isdir sample_fs [] ''models''"
    by (simp add: sample_fs_def)
  have d2: "\<not> os_path_isdir sample_fs [] ''LICENSE'' \<and> os_path_isfile sample_fs [] ''LICENSE''"
    by (simp add: sample_fs_def)
  have d3: "\<not> os_path_isdir sample_fs [] ''nope'' \<and> \<not> os_path_isfile sample_fs [] ''nope''"
    by (simp add: sample_fs_def)
  have pn: "posix_basename ''models'' \<noteq> [] \<and> posix_basename ''models'' \<noteq> ''.''
              \<and> posix_basename ''models'' \<noteq> ''..''"
    by (simp add: basename_models)
  have ct: "copy_tree sample_fs [] ''models'' ''/dst/openpose/models''
              = Inr [''/dst/openpose/models/getModels.sh'',
                     ''/dst/openpose/models/pose/coco/pose_deploy_linevec.prototxt'']"
    by code_simp
  have cf: "copy_file sample_fs [] ''LICENSE'' ''/dst'' = Inr (''/dst/LICENSE'', 1)"
    by code_simp
  have r1: "copy_to sample_fs ''models'' ''/dst/openpose'' []
       = ([Copy_tree ''models'' ''/dst/openpose/models''],
          Inr (Out_list [''/dst/openpose/models/getModels.sh'',
                         ''/dst/openpose/models/pose/coco/pose_deploy_linevec.prototxt''], 1))"
    using t1 d1 by (simp add: basename_models join_dst_openpose_models ct)
  have r1b: "posix_basename (posix_join ''/dst/openpose'' (posix_basename ''models'')) = ''models''"
    using t1 pn by (simp add: basename_models)
  have rs: "rstrip_sep ''/dst/openpose'' = ''/dst/openpose''"
    by code_simp
  have ne: "''/dst/openpose'' \<noteq> replicate (length ''/dst/openpose'') sep"
    by code_simp
  have r1c: "posix_dirname (posix_join ''/dst/openpose'' (posix_basename ''models'')) = ''/dst/openpose''"
    using t1 pn ne rs by simp
  have r1d: "posix_normpath (posix_join ''/dst/openpose'' (posix_basename ''models''))
               = ''/dst/openpose/models''"
    using t1 pn by (simp add: normpath_dst_openpose basename_models join_dst_openpose_models)
  have r2: "copy_to sample_fs ''LICENSE'' ''/dst'' []
       = ([Copy_file ''LICENSE'' ''/dst''], Inr (Out_str ''/dst/LICENSE'', 1))"
    using t2 d2 by (simp add: cf)
  have r3: "\<exists>m. copy_to sample_fs ''nope'' ''/dst'' [] = ([], Inl (DistutilsFileError m))
          \<and> sublist ''nope'' m"
    using t3 d3 by blast
  show ?thesis
    using d1 d2 d3 r1 r1b r1c r1d r2 r3 basename_models by blast
qed

text \<open>
  C6, as the claim states it, fails for a directory written with a trailing separator:
  the basename of \<open>models/\<close> is empty, the tree is copied to \<open>/dst/openpose/\<close>, and that is
  the target directory itself, not a directory one level under it.
\<close>

theorem directory_with_trailing_separator_not_nested:
  "os_path_isdir slash_fs [] ''models/''
   \<and> fst (copy_to slash_fs ''models/'' ''/dst/openpose'' [])
       = [Copy_tree ''models/'' ''/dst/openpose/'']
   \<and> posix_basename ''/dst/openpose/'' = []
   \<and> posix_normpath ''/dst/openpose/'' = posix_normpath ''/dst/openpose''"
  by code_simp

section \<open>The output list of run\<close>

lemma target_dir_sample:
  "target_dir sample_fs install_cmd_obj ''openpose/cache'' = ''/dst/openpose/cache''"
  by code_simp

lemma run_empty_directory_example:
  "run sample_fs (install_cmd_obj\<lparr>data_files := [Into ''openpose/cache'' []]\<rparr>) ([], [])
     = (([Mkpath ''/dst'', Mkpath ''/dst/openpose/cache''], [Out_str ''/dst/openpose/cache'']), None)"
  by code_simp

text \<open>What \<open>run\<close> appends for one source: the list that \<open>copy_tree\<close> returned when the
  source is a directory, the name that \<open>copy_file\<close> returned when it is a regular file.\<close>

lemma copy_all_directory_source:
  assumes "os_path_isdir fs tr (convert_path fs data)"
    and "copy_tree fs tr (convert_path fs data)
           (posix_join dir (posix_basename (convert_path fs data))) = Inr copied"
  shows "copy_all fs dir [data] (tr, outfiles)
           = ((tr @ [Copy_tree (convert_path fs data)
                       (posix_join dir (posix_basename (convert_path fs data)))],
               outfiles @ [Out_list copied]), None)"
  using assms by (simp add: copy_to_dir)

lemma copy_all_file_source:
  assumes "\<not> os_path_isdir fs tr (convert_path fs data)"
    and "os_path_isfile fs tr (convert_path fs data)"
    and "copy_file fs tr (convert_path fs data) dir = Inr (dst_name, copied)"
  shows "copy_all fs dir [data] (tr, outfiles)
           = ((tr @ [Copy_file (convert_path fs data) dir], outfiles @ [Out_str dst_name]), None)"
  using assms by (simp add: copy_to_file)

lemma install_all_append:
  "install_all fs self (xs @ ys) st =
     (case install_all fs self xs st of
        (st1, Some e) \<Rightarrow> (st1, Some e)
      | (st1, None) \<Rightarrow> install_all fs self ys st1)"
proof (induction xs arbitrary: st)
  case Nil
  then show ?case by simp
next
  case (Cons x xs)
  obtain st1 r where step: "install_entry fs self x st = (st1, r)"
    by (cases "install_entry fs self x st")
  show ?case
  proof (cases r)
    case None
    with step Cons.IH [of st1] show ?thesis by simp
  next
    case (Some e)
    with step show ?thesis by simp
  qed
qed

lemma install_entry_empty:
  "mkpath fs tr (target_dir fs self d) = None \<Longrightarrow>
   install_entry fs self (Into d []) (tr, outfiles)
     = ((tr @ [Mkpath (target_dir fs self d)], outfiles @ [Out_str (target_dir fs self d)]), None)"
  by (simp add: install_entry_def Let_def)

lemma empty_dir_cmd_obj_manifest:
  "data_files empty_dir_cmd_obj = [] @ Into ''openpose/cache'' [] # []"
  by (simp add: empty_dir_cmd_obj_def)

lemma target_dir_empty_dir_sample:
  "target_dir sample_fs empty_dir_cmd_obj ''openpose/cache'' = ''/dst/openpose/cache''"
  by code_simp

text \<open>
  C7. Let the manifest of \<open>run\<close> have an entry \<open>(target_subdir, [])\<close>, and let \<open>run\<close> reach it:
  the install directory is created and the entries before it are installed without an
  error, leaving the trace \<open>tr1\<close> and the output list \<open>outfiles1\<close>. When \<open>mkpath\<close> then creates
  the resolved directory, \<open>run\<close> goes on with the entries after it from the trace \<open>tr1\<close>
  plus that one call of \<open>mkpath\<close> (no copy) and from \<open>outfiles1\<close> plus exactly one element,
  the resolved directory; when it is the last entry, that is the result of \<open>run\<close>.
\<close>

theorem empty_source_list_registers_directory:
  assumes root_made: "mkpath fs tr (install_dir self) = None"
    and manifest: "data_files self = before @ Into d [] # after"
    and earlier: "install_all fs self before (tr @ [Mkpath (install_dir self)], outfiles)
                    = ((tr1, outfiles1), None)"
    and dir_made: "mkpath fs tr1 (target_dir fs self d) = None"
  shows "run fs self (tr, outfiles)
           = install_all fs self after
               (tr1 @ [Mkpath (target_dir fs self d)], outfiles1 @ [Out_str (target_dir fs self d)])
         \<and> (after = [] \<longrightarrow>
              run fs self (tr, outfiles)
                = ((tr1 @ [Mkpath (target_dir fs self d)],
                    outfiles1 @ [Out_str (target_dir fs self d)]), None))"
proof -
  have "run fs self (tr, outfiles)
          = install_all fs self (before @ Into d [] # after)
              (tr @ [Mkpath (install_dir self)], outfiles)"
    using root_made manifest by (simp add: run_def)
  also have "\<dots> = install_all fs self (Into d [] # after) (tr1, outfiles1)"
    using earlier by (simp add: install_all_append)
  also have "\<dots> = install_all fs self after
               (tr1 @ [Mkpath (target_dir fs self d)], outfiles1 @ [Out_str (target_dir fs self d)])"
    using install_entry_empty [OF dir_made] by simp
  finally have r: "run fs self (tr, outfiles)
           = install_all fs self after
               (tr1 @ [Mkpath (target_dir fs self d)], outfiles1 @ [Out_str (target_dir fs self d)])" .
  then show ?thesis by auto
qed

theorem empty_source_list_registers_directory_witness:
  "mkpath sample_fs [] (install_dir empty_dir_cmd_obj) = None
   \<and> data_files empty_dir_cmd_obj = [] @ Into ''openpose/cache'' [] # []
   \<and> install_all sample_fs empty_dir_cmd_obj [] ([] @ [Mkpath (install_dir empty_dir_cmd_obj)], [])
        = (([Mkpath ''/dst''], []), None)
   \<and> mkpath sample_fs [Mkpath ''/dst''] (target_dir sample_fs empty_dir_cmd_obj ''openpose/cache'') = None
   \<and> run sample_fs empty_dir_cmd_obj ([], [])
        = (([Mkpath ''/dst'', Mkpath ''/dst/openpose/cache''], [Out_str ''/dst/openpose/cache'']), None)"
proof -
  have a: "mkpath sample_fs [] (install_dir empty_dir_cmd_obj) = None"
    by (simp add: sample_fs_def)
  have b: "install_all sample_fs empty_dir_cmd_obj []
             ([] @ [Mkpath (install_dir empty_dir_cmd_obj)], [])
             = (([Mkpath ''/dst''], []), None)"
    by (simp add: empty_dir_cmd_obj_def install_cmd_obj_def)
  have c: "mkpath sample_fs [Mkpath ''/dst'']
             (target_dir sample_fs empty_dir_cmd_obj ''openpose/cache'') = None"
    by (simp add: sample_fs_def)
  show ?thesis
    using a empty_dir_cmd_obj_manifest b c
      empty_source_list_registers_directory [OF a empty_dir_cmd_obj_manifest b c]
    by (simp add: target_dir_empty_dir_sample)
qed

text \<open>
  C8 does not hold of the code. On the manifest of the script itself,
  \<open>[('openpose', ['models'])]\<close> with \<open>models\<close> a directory of two files, \<open>outfiles\<close> ends up
  with one element that is the list of the two copied files, where the file branch and
  the empty-directory branch append a path string.
\<close>

theorem directory_source_appends_a_list:
  "run sample_fs install_cmd_obj ([], [])
     = (([Mkpath ''/dst'', Mkpath ''/dst/openpose'', Copy_tree ''models'' ''/dst/openpose/models''],
         [Out_list [''/dst/openpose/models/getModels.sh'',
                    ''/dst/openpose/models/pose/coco/pose_deploy_linevec.prototxt'']]),
        None)"
  by code_simp

section \<open>Tokenizing the extra arguments\<close>

lemma space_is_whitespace: "CHR '' '' \<in> whitespace"
  by (simp add: whitespace_def)

lemma read_tokens_word_plain:
  "list_all plain_char w \<Longrightarrow>
   read_tokens In_word es token quoted (w @ rest) = read_tokens In_word es (token @ w) quoted rest"
proof (induction w arbitrary: token)
  case Nil
  then show ?case by simp
next
  case (Cons c w)
  from Cons.prems have pc: "plain_char c" and w: "list_all plain_char w"
    by simp_all
  from pc have c: "c \<notin> whitespace" "c \<notin> quotes" "c \<noteq> backslash"
    by (simp_all add: plain_char_def)
  have "read_tokens In_word es token quoted ((c # w) @ rest)
          = read_tokens In_word es (token @ [c]) quoted (w @ rest)"
    using c by simp
  also have "\<dots> = read_tokens In_word es ((token @ [c]) @ w) quoted rest"
    by (rule Cons.IH [OF w])
  finally show ?case by simp
qed

lemma read_tokens_space_plain_token:
  assumes "plain_token t"
  shows "read_tokens In_space es [] False (t @ rest) = read_tokens In_word es t False rest"
proof -
  from assms obtain c w where t: "t = c # w" and c: "plain_char c" and w: "list_all plain_char w"
    by (cases t) (auto simp: plain_token_def)
  have "read_tokens In_space es [] False ((c # w) @ rest)
          = read_tokens In_word es [c] False (w @ rest)"
    using c by (simp add: plain_char_def)
  also have "\<dots> = read_tokens In_word es ([c] @ w) False rest"
    by (rule read_tokens_word_plain [OF w])
  finally show ?thesis by (simp add: t)
qed

text \<open>The tokens of the option strings are the elements that \<open>finalize_options\<close> stores, and
  the configure and build commands end with them, element by element.\<close>

lemma finalize_options_tokens:
  "shlex_split cs = Inr cts \<Longrightarrow> shlex_split bs = Inr bts \<Longrightarrow>
   finalize_options self cs bs
     = Inr (self\<lparr>cmake_config_args := cts, cmake_build_args := bts\<rparr>)"
  by (simp add: finalize_options_def)

lemma commands_end_with_tokens:
  "config_cmd h (self\<lparr>cmake_config_args := cts, cmake_build_args := bts\<rparr>) ext
     = [''cmake'', cmake_source_dir ext] @ cmake_args h self ext @ cts
   \<and> build_cmd (self\<lparr>cmake_config_args := cts, cmake_build_args := bts\<rparr>)
     = [''cmake'', ''--build'', ''.'', ''--config'', ''Release''] @ bts"
  by (simp add: config_cmd_def build_cmd_def cmake_args_def cfg_def extdir_def Let_def)

lemma safe_char_plain: "safe_char c \<Longrightarrow> plain_char c"
  by (auto simp: safe_char_def plain_char_def whitespace_def quotes_def squote_def dquote_def
        backslash_def Let_def)

lemma safe_token_plain: "s \<noteq> [] \<Longrightarrow> list_all safe_char s \<Longrightarrow> plain_token s"
  by (simp add: plain_token_def list_all_iff safe_char_plain)

lemma squote_facts:
  "squote \<notin> whitespace" "dquote \<notin> whitespace" "squote \<in> quotes" "dquote \<in> quotes"
  "squote \<noteq> dquote" "squote \<noteq> backslash" "dquote \<noteq> backslash" "squote \<notin> escapedquotes"
  by (simp_all add: whitespace_def quotes_def squote_def dquote_def backslash_def escapedquotes_def)

lemma read_tokens_quoted_body:
  "read_tokens (In_quote squote) es token quoted
     (concat (map (\<lambda>c. if c = squote then [squote, dquote, squote, dquote, squote] else [c]) s)
        @ squote # rest)
   = read_tokens In_word es (token @ s) True rest"
proof (induction s arbitrary: token quoted)
  case Nil
  then show ?case by simp
next
  case (Cons c s)
  show ?case
  proof (cases "c = squote")
    case True
    then show ?thesis
      using Cons.IH [of "token @ [squote]" True] by (simp add: squote_facts)
  next
    case False
    then show ?thesis
      using Cons.IH [of "token @ [c]" True] by (simp add: squote_facts)
  qed
qed

lemma read_tokens_quote:
  "\<exists>q. (q \<or> t \<noteq> []) \<and>
       (\<forall>rest. read_tokens In_space es [] False (shlex_quote t @ rest)
                 = read_tokens In_word es t q rest)"
proof (cases "t \<noteq> [] \<and> list_all safe_char t")
  case True
  then have p: "plain_token t" by (simp add: safe_token_plain)
  have "\<forall>rest. read_tokens In_space es [] False (shlex_quote t @ rest)
                 = read_tokens In_word es t False rest"
    using True read_tokens_space_plain_token [OF p, of es] by (simp add: shlex_quote_def)
  with True show ?thesis by blast
next
  case False
  then have q: "shlex_quote t = squote #
      concat (map (\<lambda>c. if c = squote then [squote, dquote, squote, dquote, squote] else [c]) t)
        @ [squote]"
    by (auto simp: shlex_quote_def)
  have "\<forall>rest. read_tokens In_space es [] False (shlex_quote t @ rest)
                 = read_tokens In_word es t True rest"
  proof
    fix rest
    have "read_tokens In_space es [] False (shlex_quote t @ rest)
            = read_tokens (In_quote squote) es [] False
                (concat (map (\<lambda>c. if c = squote then [squote, dquote, squote, dquote, squote] else [c]) t)
                   @ squote # rest)"
      by (simp add: q squote_facts)
    also have "\<dots> = read_tokens In_word es ([] @ t) True rest"
      by (rule read_tokens_quoted_body)
    finally show "read_tokens In_space es [] False (shlex_quote t @ rest)
                 = read_tokens In_word es t True rest"
      by simp
  qed
  then show ?thesis by blast
qed

lemma read_tokens_join_quoted:
  "read_tokens In_space es [] False (py_join '' '' (map shlex_quote ts)) = Inr ts"
proof (induction ts arbitrary: es)
  case Nil
  then show ?case by simp
next
  case (Cons x ts)
  obtain q where q: "q \<or> x \<noteq> []"
    and rd: "\<And>rest. read_tokens In_space es [] False (shlex_quote x @ rest)
                      = read_tokens In_word es x q rest"
    using read_tokens_quote [of x es] by blast
  show ?case
  proof (cases ts)
    case Nil
    have "read_tokens In_space es [] False (py_join '' '' (map shlex_quote (x # ts)))
            = read_tokens In_space es [] False (shlex_quote x @ [])"
      using Nil by simp
    also have "\<dots> = read_tokens In_word es x q []"
      by (rule rd)
    also have "\<dots> = Inr [x]"
      using q by auto
    finally show ?thesis using Nil by simp
  next
    case (Cons y ys)
    have ih: "read_tokens In_space In_space [] False (py_join '' '' (map shlex_quote ts)) = Inr ts"
      by (rule Cons.IH)
    have "read_tokens In_space es [] False (py_join '' '' (map shlex_quote (x # ts)))
            = read_tokens In_space es [] False
                (shlex_quote x @ (CHR '' '' # py_join '' '' (map shlex_quote ts)))"
      using Cons by simp
    also have "\<dots> = read_tokens In_word es x q (CHR '' '' # py_join '' '' (map shlex_quote ts))"
      by (rule rd)
    also have "\<dots> = Inr (x # ts)"
      using q ih by (auto simp: space_is_whitespace)
    finally show ?thesis .
  qed
qed

lemma split_quoted_flags_arg: "shlex_split quoted_flags_arg = Inr [''-DCMAKE_CXX_FLAGS=-O2 -g'']"
  by code_simp

lemma join_quoted_flags_token:
  "shlex_join [''-DCMAKE_CXX_FLAGS=-O2 -g''] = [squote] @ ''-DCMAKE_CXX_FLAGS=-O2 -g'' @ [squote]"
  by code_simp

text \<open>
  C5. For every extra-argument string that \<open>shlex.split\<close> tokenizes, with or without quoted
  parts that have spaces in them, joining the tokens again with \<open>shlex.join\<close> (each token
  quoted where it needs to be) and tokenizing the result gives the same list of tokens.
  The script itself does not join the tokens again: it hands them to the process as the
  elements of the argument list, and joins a command by spaces only for its log line.
\<close>

theorem split_join_round_trip:
  "shlex_split s = Inr ts \<Longrightarrow>
   shlex_split (shlex_join ts) = Inr ts \<and> shlex_split (shlex_join ts) = shlex_split s"
  by (simp add: shlex_split_def shlex_join_def read_tokens_join_quoted)

theorem split_join_round_trip_witness:
  "shlex_split quoted_flags_arg = Inr [''-DCMAKE_CXX_FLAGS=-O2 -g'']
   \<and> shlex_join [''-DCMAKE_CXX_FLAGS=-O2 -g'']
        = [squote] @ ''-DCMAKE_CXX_FLAGS=-O2 -g'' @ [squote]
   \<and> shlex_split (shlex_join [''-DCMAKE_CXX_FLAGS=-O2 -g'']) = Inr [''-DCMAKE_CXX_FLAGS=-O2 -g'']
   \<and> shlex_split (shlex_join [''-DCMAKE_CXX_FLAGS=-O2 -g'']) = shlex_split quoted_flags_arg"
  using split_quoted_flags_arg join_quoted_flags_token
    split_join_round_trip [OF split_quoted_flags_arg]
  by simp

end
